theory Spec2Isabelle
  imports Main
begin

section \<open>furios-recovery: the factory-reset engine of \<^verbatim>\<open>main.c\<close>\<close>

text \<open>
  The reset engine is straight-line C that talks to the operating system: it reads
  \<^verbatim>\<open>/proc/cmdline\<close>, asks \<^verbatim>\<open>stat\<close> whether device nodes and files exist, mounts and
  unmounts two scratch directories and runs shell commands through \<^verbatim>\<open>system\<close>.

  The embedding keeps the control flow of the C functions and makes the operating system
  explicit in two ways.
  \<^item> What the system answers is an input: the record \<open>env\<close> has one field per call site
    of \<^verbatim>\<open>stat\<close>, \<^verbatim>\<open>mount\<close>, \<^verbatim>\<open>system\<close>, \<^verbatim>\<open>opendir\<close> and \<^verbatim>\<open>readdir\<close>, in source order.
    Every call site is executed at most once in a run, so any behaviour of the system,
    also one where an earlier command changes what a later \<^verbatim>\<open>stat\<close> sees, is one value
    of the record.
  \<^item> What the code does to the system is an output: the list of \<open>event\<close>s, in the order the
    calls are made.
  \<^verbatim>\<open>printf\<close> messages and \<^verbatim>\<open>free\<close> are left out; they decide nothing.
\<close>

subsection \<open>C strings and the slot suffix (\<^verbatim>\<open>get_slot_suffix\<close>, lines 644-667)\<close>

definition newline :: char where
  "newline = CHR 0x0A"

definition NUL :: char where
  "NUL = CHR 0x00"

text \<open>The bytes of a buffer that C string functions see: those before the first NUL.\<close>

definition c_str :: "string \<Rightarrow> string" where
  "c_str buf = takeWhile (\<lambda>c. c \<noteq> NUL) buf"

text \<open>
  \<^verbatim>\<open>fgets(buffer, size, f)\<close> on a freshly opened file with the given content: \<open>None\<close> is
  the NULL it returns at end of file; otherwise it stores at most \<open>size - 1\<close> bytes and
  stops after the first newline.
\<close>

definition fgets :: "nat \<Rightarrow> string \<Rightarrow> string option" where
  "fgets bufsize content =
     (if content = [] then None
      else Some (take (bufsize - 1)
             (takeWhile (\<lambda>c. c \<noteq> newline) content @
              take 1 (dropWhile (\<lambda>c. c \<noteq> newline) content))))"

text \<open>
  \<^verbatim>\<open>strstr(haystack, needle)\<close>: the rest of the haystack from the first occurrence of the
  needle on, \<open>None\<close> for NULL.
\<close>

fun strstr :: "string \<Rightarrow> string \<Rightarrow> string option" where
  "strstr [] needle = (if needle = [] then Some [] else None)"
| "strstr (c # cs) needle =
     (if take (length needle) (c # cs) = needle then Some (c # cs) else strstr cs needle)"

text \<open>\<^verbatim>\<open>strncpy(dst, src, n); dst[n] = 0\<close> read back as a C string.\<close>

definition strncpy :: "string \<Rightarrow> nat \<Rightarrow> string" where
  "strncpy src n = take n (c_str src)"

text \<open>\<^verbatim>\<open>snprintf(buf, size, ...)\<close> keeps the first \<open>size - 1\<close> bytes of the formatted text.\<close>

definition snprintf :: "nat \<Rightarrow> string \<Rightarrow> string" where
  "snprintf bufsize formatted = take (bufsize - 1) formatted"

definition slot_key :: string where
  "slot_key = ''androidboot.slot_suffix=''"

text \<open>
  \<open>cmdline\<close> is the content of \<^verbatim>\<open>/proc/cmdline\<close>, \<open>None\<close> when \<^verbatim>\<open>fopen\<close> fails;
  \<open>malloc_ok\<close> says whether \<^verbatim>\<open>malloc(3)\<close> succeeds. The result \<open>None\<close> is NULL.
\<close>

definition get_slot_suffix :: "string option \<Rightarrow> bool \<Rightarrow> string option" where
  "get_slot_suffix cmdline malloc_ok =
     (case cmdline of
        None \<Rightarrow> None
      | Some content \<Rightarrow>
          (case fgets 1024 content of
             None \<Rightarrow> None
           | Some buffer \<Rightarrow>
               (case strstr (c_str buffer) slot_key of
                  None \<Rightarrow> None
                | Some token \<Rightarrow>
                    if malloc_ok then Some (strncpy (drop (length slot_key) token) 2)
                    else None)))"

text \<open>
  Lines 694-699 of \<^verbatim>\<open>factory_reset\<close>: a NULL suffix becomes the empty string
  (\<^verbatim>\<open>strdup("")\<close>, taken to succeed).
\<close>

definition slot_suffix_or_default :: "string option \<Rightarrow> bool \<Rightarrow> string" where
  "slot_suffix_or_default cmdline malloc_ok =
     (case get_slot_suffix cmdline malloc_ok of None \<Rightarrow> [] | Some s \<Rightarrow> s)"

subsection \<open>The environment and the events\<close>

record env =
  cmdline :: "string option"
  malloc_ok :: bool
  stat_super :: bool                \<comment> \<open>line 703\<close>
  stat_system_a_pre :: bool         \<comment> \<open>line 705, before activation\<close>
  stat_system_b_pre :: bool         \<comment> \<open>line 707, before activation\<close>
  system_dmsetup :: int             \<comment> \<open>line 709, exit status, not read by the code\<close>
  stat_system_a :: bool             \<comment> \<open>line 715\<close>
  mount_system_a :: int             \<comment> \<open>line 716\<close>
  stat_system_b :: bool             \<comment> \<open>line 722\<close>
  mount_system_b :: int             \<comment> \<open>line 723\<close>
  stat_userdata_img :: bool         \<comment> \<open>line 735\<close>
  stat_userdata_raw_img :: bool     \<comment> \<open>line 737\<close>
  system_userdata :: int            \<comment> \<open>line 746\<close>
  stat_boot_img :: bool             \<comment> \<open>line 754\<close>
  system_dd_boot :: int             \<comment> \<open>line 758\<close>
  stat_dtbo_img :: bool             \<comment> \<open>line 770\<close>
  system_dd_dtbo :: int             \<comment> \<open>line 774\<close>
  stat_boot_img_again :: bool       \<comment> \<open>line 786\<close>
  stat_dtbo_img_again :: bool       \<comment> \<open>line 787\<close>
  stat_rootfs :: bool               \<comment> \<open>line 788\<close>
  mount_rootfs :: int               \<comment> \<open>line 791\<close>
  opendir_boot :: bool              \<comment> \<open>line 797, True when a stream is returned\<close>
  readdir_boot :: "string list"     \<comment> \<open>names returned by the loop of line 805\<close>
  readdir_rewound :: "string list"  \<comment> \<open>names returned after \<^verbatim>\<open>rewinddir\<close>, line 814\<close>
  system_dd_boot_rootfs :: int      \<comment> \<open>line 832\<close>
  system_dd_dtbo_rootfs :: int      \<comment> \<open>line 852\<close>

text \<open>
  \<open>Mount device target result\<close> records a call of \<^verbatim>\<open>mount\<close> with what it returned;
  \<open>System\<close> a command line handed to \<^verbatim>\<open>system\<close>; \<open>DropCaches\<close> a call of
  \<^verbatim>\<open>drop_caches\<close> (lines 669-684), whose result no caller reads. \<open>ResetTerminal\<close> and
  \<open>Exit\<close> are what the signal handler does.
\<close>

datatype event =
    DropCaches
  | Mkdir string
  | Mount string string int
  | Umount string
  | System string
  | ResetTerminal
  | Exit int

text \<open>
  The scratch mounts a trace leaves open. A \<^verbatim>\<open>mount\<close> that returned 0 stacks the target;
  \<^verbatim>\<open>umount\<close> takes the most recent mount of its target away (and does nothing when there
  is none).
\<close>

fun apply_event :: "string list \<Rightarrow> event \<Rightarrow> string list" where
  "apply_event ms (Mount dev tgt r) = (if r = 0 then tgt # ms else ms)"
| "apply_event ms (Umount tgt) = remove1 tgt ms"
| "apply_event ms DropCaches = ms"
| "apply_event ms (Mkdir p) = ms"
| "apply_event ms (System c) = ms"
| "apply_event ms ResetTerminal = ms"
| "apply_event ms (Exit n) = ms"

definition open_mounts :: "event list \<Rightarrow> string list" where
  "open_mounts t = foldl apply_event [] t"

fun is_mount_of :: "string \<Rightarrow> event \<Rightarrow> bool" where
  "is_mount_of tgt (Mount dev x r) = (x = tgt \<and> r = 0)"
| "is_mount_of tgt DropCaches = False"
| "is_mount_of tgt (Mkdir p) = False"
| "is_mount_of tgt (Umount x) = False"
| "is_mount_of tgt (System c) = False"
| "is_mount_of tgt ResetTerminal = False"
| "is_mount_of tgt (Exit n) = False"

fun is_mount_call :: "event \<Rightarrow> bool" where
  "is_mount_call (Mount dev x r) = True"
| "is_mount_call DropCaches = False"
| "is_mount_call (Mkdir p) = False"
| "is_mount_call (Umount x) = False"
| "is_mount_call (System c) = False"
| "is_mount_call ResetTerminal = False"
| "is_mount_call (Exit n) = False"

text \<open>A call of \<^verbatim>\<open>mount\<close> on the given mount point, whatever it returned.\<close>

fun is_mount_on :: "string \<Rightarrow> event \<Rightarrow> bool" where
  "is_mount_on tgt (Mount dev x r) = (x = tgt)"
| "is_mount_on tgt DropCaches = False"
| "is_mount_on tgt (Mkdir p) = False"
| "is_mount_on tgt (Umount x) = False"
| "is_mount_on tgt (System c) = False"
| "is_mount_on tgt ResetTerminal = False"
| "is_mount_on tgt (Exit n) = False"

definition mounts_done :: "string \<Rightarrow> event list \<Rightarrow> nat" where
  "mounts_done tgt t = length (filter (is_mount_of tgt) t)"

definition umounts_done :: "string \<Rightarrow> event list \<Rightarrow> nat" where
  "umounts_done tgt t = length (filter (\<lambda>ev. ev = Umount tgt) t)"

subsection \<open>\<^verbatim>\<open>factory_reset\<close> (lines 686-874)\<close>

definition dmsetup_cmd :: string where
  \<open>dmsetup_cmd =
     ''dmsetup create --concise "$(parse-android-dynparts /dev/disk/by-partlabel/super)"''\<close>

definition userdata_cmd :: string where
  "userdata_cmd =
     ''tar -xzOf /system_mnt/userdata.img.tar.gz | dd of=/dev/disk/by-partlabel/userdata bs=4M''"

definition userdata_raw_cmd :: string where
  "userdata_raw_cmd =
     ''tar -xzOf /system_mnt/userdata-raw.img.tar.gz | dd of=/dev/disk/by-partlabel/userdata bs=4M''"

definition dd_boot_system_cmd :: "string \<Rightarrow> string" where
  "dd_boot_system_cmd slot_suffix =
     snprintf 1024
       (''dd if=/system_mnt/boot.img of=/dev/disk/by-partlabel/boot'' @ slot_suffix @ '' bs=4M'')"

definition dd_dtbo_system_cmd :: "string \<Rightarrow> string" where
  "dd_dtbo_system_cmd slot_suffix =
     snprintf 1024
       (''dd if=/system_mnt/dtbo.img of=/dev/disk/by-partlabel/dtbo'' @ slot_suffix @ '' bs=4M'')"

text \<open>Lines 825-830 and 845-850: the path in a 512-byte buffer, then the command.\<close>

definition dd_boot_rootfs_cmd :: "string \<Rightarrow> string \<Rightarrow> string" where
  \<open>dd_boot_rootfs_cmd bootimg_file slot_suffix =
     snprintf 1024
       (''dd if="'' @ snprintf 512 (''/rootfs_mnt/boot/'' @ bootimg_file) @
        ''" of="/dev/disk/by-partlabel/boot'' @ slot_suffix @ ''" bs=4M'')\<close>

definition dd_dtbo_rootfs_cmd :: "string \<Rightarrow> string \<Rightarrow> string" where
  \<open>dd_dtbo_rootfs_cmd dtboimg_file slot_suffix =
     snprintf 1024
       (''dd if="'' @ snprintf 512 (''/rootfs_mnt/boot/'' @ dtboimg_file) @
        ''" of="/dev/disk/by-partlabel/dtbo'' @ slot_suffix @ ''" bs=4M'')\<close>

text \<open>
  Each part of the function returns the events it adds and \<open>Some r\<close> when it leaves
  \<^verbatim>\<open>factory_reset\<close> with \<^verbatim>\<open>return r\<close>, \<open>None\<close> when control goes on to the next line.
\<close>

text \<open>Lines 703-712.\<close>

definition activate_dynparts :: "env \<Rightarrow> event list" where
  "activate_dynparts e =
     (if stat_super e then
        (if \<not> stat_system_a_pre e then
           (if \<not> stat_system_b_pre e then [System (snprintf 1024 dmsetup_cmd)] else [])
         else [])
      else [])"

text \<open>Lines 714-733.\<close>

definition mount_system :: "env \<Rightarrow> int option \<times> event list" where
  "mount_system e =
     (if stat_system_a e then
        (if mount_system_a e \<noteq> 0
         then (Some (- 1),
               [Mkdir ''/system_mnt'',
                Mount ''/dev/mapper/dynpart-system_a'' ''/system_mnt'' (mount_system_a e)])
         else (None,
               [Mkdir ''/system_mnt'',
                Mount ''/dev/mapper/dynpart-system_a'' ''/system_mnt'' (mount_system_a e)]))
      else if stat_system_b e then
        (if mount_system_b e \<noteq> 0
         then (Some (- 1),
               [Mkdir ''/system_mnt'',
                Mount ''/dev/mapper/dynpart-system_b'' ''/system_mnt'' (mount_system_b e)])
         else (None,
               [Mkdir ''/system_mnt'',
                Mount ''/dev/mapper/dynpart-system_b'' ''/system_mnt'' (mount_system_b e)]))
      else (Some (- 1), [Mkdir ''/system_mnt'']))"

text \<open>Lines 746-752, after \<open>cmd\<close> has been chosen.\<close>

definition run_userdata_cmd :: "env \<Rightarrow> string \<Rightarrow> int option \<times> event list" where
  "run_userdata_cmd e cmd =
     (if system_userdata e \<noteq> 0 then (Some (- 1), [System cmd, Umount ''/system_mnt''])
      else (None, [System cmd]))"

text \<open>Lines 735-752.\<close>

definition write_userdata :: "env \<Rightarrow> int option \<times> event list" where
  "write_userdata e =
     (if stat_userdata_img e then run_userdata_cmd e (snprintf 1024 userdata_cmd)
      else if stat_userdata_raw_img e then run_userdata_cmd e (snprintf 1024 userdata_raw_cmd)
      else (Some (- 1), [Umount ''/system_mnt'']))"

text \<open>Lines 754-784. The exit status of either \<^verbatim>\<open>dd\<close> only selects a message.\<close>

definition flash_from_system :: "env \<Rightarrow> string \<Rightarrow> event list" where
  "flash_from_system e slot_suffix =
     (if stat_boot_img e then [System (dd_boot_system_cmd slot_suffix)] else []) @
     (if stat_dtbo_img e then [System (dd_dtbo_system_cmd slot_suffix)] else [])"

text \<open>
  The two \<^verbatim>\<open>readdir\<close> loops of lines 804-820: the first name whose first
  \<open>length pre\<close> bytes are \<open>pre\<close>, copied into a 256-byte buffer; the buffer keeps its
  initial empty string when no name matches.
\<close>

fun find_image :: "string \<Rightarrow> string list \<Rightarrow> string" where
  "find_image pre [] = []"
| "find_image pre (d_name # rest) =
     (if take (length pre) (c_str d_name) = pre then strncpy d_name 255
      else find_image pre rest)"

text \<open>Lines 824-862.\<close>

definition flash_from_rootfs :: "env \<Rightarrow> string \<Rightarrow> event list" where
  "flash_from_rootfs e slot_suffix =
     (let bootimg_file = find_image ''boot.img'' (readdir_boot e);
          dtboimg_file = find_image ''dtbo.img'' (readdir_rewound e)
      in (if bootimg_file \<noteq> [] then [System (dd_boot_rootfs_cmd bootimg_file slot_suffix)]
          else []) @
         (if dtboimg_file \<noteq> [] then [System (dd_dtbo_rootfs_cmd dtboimg_file slot_suffix)]
          else []))"

text \<open>Lines 786-868.\<close>

definition rootfs_fallback :: "env \<Rightarrow> string \<Rightarrow> int option \<times> event list" where
  "rootfs_fallback e slot_suffix =
     (if \<not> stat_boot_img_again e \<or> \<not> stat_dtbo_img_again e then
        (if stat_rootfs e then
           (if mount_rootfs e \<noteq> 0
            then (Some (- 1),
                  [Mkdir ''/rootfs_mnt'',
                   Mount ''/dev/mapper/droidian-droidian--rootfs'' ''/rootfs_mnt''
                     (mount_rootfs e)])
            else if \<not> opendir_boot e
            then (Some (- 1),
                  [Mkdir ''/rootfs_mnt'',
                   Mount ''/dev/mapper/droidian-droidian--rootfs'' ''/rootfs_mnt''
                     (mount_rootfs e),
                   Umount ''/rootfs_mnt''])
            else (None,
                  [Mkdir ''/rootfs_mnt'',
                   Mount ''/dev/mapper/droidian-droidian--rootfs'' ''/rootfs_mnt''
                     (mount_rootfs e)] @
                  flash_from_rootfs e slot_suffix @
                  [Umount ''/rootfs_mnt'']))
         else (None, []))
      else (None, []))"

text \<open>The whole function: the returned \<^verbatim>\<open>int\<close> and the events of the run.\<close>

definition factory_reset :: "env \<Rightarrow> int \<times> event list" where
  "factory_reset e =
     (let slot_suffix = slot_suffix_or_default (cmdline e) (malloc_ok e);
          t0 = [DropCaches] @ activate_dynparts e
      in case mount_system e of
           (Some r, t1) \<Rightarrow> (r, t0 @ t1)
         | (None, t1) \<Rightarrow>
             (case write_userdata e of
                (Some r, t2) \<Rightarrow> (r, t0 @ t1 @ t2)
              | (None, t2) \<Rightarrow>
                  (let t3 = flash_from_system e slot_suffix
                   in case rootfs_fallback e slot_suffix of
                        (Some r, t4) \<Rightarrow> (r, t0 @ t1 @ t2 @ t3 @ t4)
                      | (None, t4) \<Rightarrow>
                          (0, t0 @ t1 @ t2 @ t3 @ t4 @
                              [Umount ''/system_mnt'', DropCaches]))))"

subsection \<open>The signal handler (\<^verbatim>\<open>sigaction_handler\<close>, lines 1080-1084)\<close>

text \<open>
  \<^verbatim>\<open>main\<close> installs the handler for SIGINT and SIGTERM. It resets the terminal and calls
  \<^verbatim>\<open>exit(0)\<close>; it makes no \<^verbatim>\<open>umount\<close> call.
\<close>

definition sigaction_handler :: "event list" where
  "sigaction_handler = [ResetTerminal, Exit 0]"

text \<open>
  A run of \<^verbatim>\<open>factory_reset\<close> that a signal ends after its first \<open>k\<close> calls: those calls,
  then the handler.
\<close>

definition interrupted_reset :: "env \<Rightarrow> nat \<Rightarrow> event list" where
  "interrupted_reset e k = take k (snd (factory_reset e)) @ sigaction_handler"

subsection \<open>The user-interface callbacks\<close>

text \<open>
  \<open>Msgbox text buttons\<close> is a modal message box (\<^verbatim>\<open>lv_msgbox_create\<close> with its size and
  centring); \<open>OnValueChanged_close_mbox\<close> registers \<^verbatim>\<open>close_mbox_cb\<close> on the box just
  created; \<open>StartTimer\<close> is the one-shot 500 ms timer created for the named callback.
\<close>

datatype timer_cb = Factory_reset_password

datatype ui_event =
    Msgbox string "string list"
  | OnValueChanged_close_mbox
  | CloseResettingMbox
  | StartTimer timer_cb
  | Decrypt

definition result_mbox :: "int \<Rightarrow> ui_event list" where
  "result_mbox factory_reset_result =
     (if factory_reset_result = 0
      then [Msgbox ''Successfully reset to factory settings'' [''OK''],
            OnValueChanged_close_mbox]
      else [Msgbox ''Failed to factory reset'' [''OK''], OnValueChanged_close_mbox])"

text \<open>
  \<^verbatim>\<open>perform_factory_reset\<close> (lines 529-569). \<open>luks\<close> is what
  \<^verbatim>\<open>is_lv_encrypted_with_luks\<close> returned for the reserved volume. The second component is
  the run of \<^verbatim>\<open>factory_reset\<close>, \<open>None\<close> when it is not called.
\<close>

definition perform_factory_reset :: "int \<Rightarrow> env \<Rightarrow> ui_event list \<times> (int \<times> event list) option" where
  "perform_factory_reset luks e =
     (if luks = - 1
      then ([CloseResettingMbox, Msgbox ''Failed to factory reset'' [''OK''],
             OnValueChanged_close_mbox], None)
      else if luks = 1 then ([Decrypt, CloseResettingMbox], None)
      else (let run = factory_reset e
            in (CloseResettingMbox # result_mbox (fst run), Some run)))"

text \<open>\<^verbatim>\<open>factory_reset_password\<close> (lines 622-642), the timer callback after an unlock.\<close>

definition factory_reset_password :: "env \<Rightarrow> ui_event list \<times> (int \<times> event list)" where
  "factory_reset_password e =
     (let run = factory_reset e
      in (CloseResettingMbox # result_mbox (fst run), run))"

text \<open>
  \<^verbatim>\<open>check_password\<close> (lines 600-620). The state is the function-local static
  \<open>attempt_count\<close> (an \<^verbatim>\<open>int\<close> that starts at 0 and only grows by one per call; its
  range is not reached in practice, so it is an unbounded integer here) together with the
  user-interface calls made so far. \<open>helper\<close> is \<^verbatim>\<open>mount_luks_lvm_droidian_helper\<close>,
  \<open>password\<close> the text of the text area. \<open>helper_calls\<close> keeps the passwords handed to
  the helper.
\<close>

record gate =
  attempt_count :: int
  ui :: "ui_event list"
  helper_calls :: "string list"

definition EXIT_SUCCESS :: int where
  "EXIT_SUCCESS = 0"

definition gate_init :: gate where
  "gate_init = \<lparr>attempt_count = 0, ui = [], helper_calls = []\<rparr>"

definition check_password :: "(string \<Rightarrow> int) \<Rightarrow> string \<Rightarrow> gate \<Rightarrow> gate" where
  "check_password helper password g =
     (let result = helper password;
          g1 = g\<lparr>helper_calls := helper_calls g @ [password]\<rparr>
      in if result = EXIT_SUCCESS
         then g1\<lparr>ui := ui g1 @ [Msgbox ''Resetting device...'' [],
                                StartTimer Factory_reset_password]\<rparr>
         else if result = 2
         then (let g2 = g1\<lparr>attempt_count := attempt_count g1 + 1\<rparr>
               in if attempt_count g2 \<ge> 3
                  then g2\<lparr>ui := ui g2 @ [Msgbox ''Maximum password attempt reached.'' []]\<rparr>
                  else g2)
         else g1)"

text \<open>The submissions of one process lifetime, in order (\<^verbatim>\<open>textarea_ready_cb\<close>).\<close>

fun submissions :: "(string \<Rightarrow> int) \<Rightarrow> string list \<Rightarrow> gate \<Rightarrow> gate" where
  "submissions helper [] g = g"
| "submissions helper (password # rest) g =
     submissions helper rest (check_password helper password g)"

subsection \<open>Concrete environments and helpers\<close>

definition demo_cmdline :: string where
  "demo_cmdline = ''console=tty0 androidboot.slot_suffix=_a quiet'' @ [newline]"

definition demo_boot_dir :: "string list" where
  "demo_boot_dir = [''.'', ''..'', ''config-5.10'', ''boot.img-5.10'']"

definition demo_boot_dir_no_images :: "string list" where
  "demo_boot_dir_no_images = [''.'', ''..'', ''config-5.10'']"

text \<open>
  A device with dynamic partitions and slot suffix \<open>_a\<close>, on which every call succeeds and
  both boot images are on the system slot.
\<close>

definition env_all_good :: env where
  "env_all_good =
     \<lparr>cmdline = Some demo_cmdline,
      malloc_ok = True,
      stat_super = True, stat_system_a_pre = False, stat_system_b_pre = False,
      system_dmsetup = 0,
      stat_system_a = True, mount_system_a = 0, stat_system_b = True, mount_system_b = 0,
      stat_userdata_img = True, stat_userdata_raw_img = False, system_userdata = 0,
      stat_boot_img = True, system_dd_boot = 0, stat_dtbo_img = True, system_dd_dtbo = 0,
      stat_boot_img_again = True, stat_dtbo_img_again = True,
      stat_rootfs = True, mount_rootfs = 0, opendir_boot = True,
      readdir_boot = demo_boot_dir, readdir_rewound = demo_boot_dir,
      system_dd_boot_rootfs = 0, system_dd_dtbo_rootfs = 0\<rparr>"

text \<open>The same device with \<^verbatim>\<open>dtbo.img\<close> missing from the system slot.\<close>

definition env_dtbo_missing :: env where
  "env_dtbo_missing = env_all_good\<lparr>stat_dtbo_img := False, stat_dtbo_img_again := False\<rparr>"

text \<open>\<^verbatim>\<open>dtbo.img\<close> missing and the mount of the rootfs volume fails.\<close>

definition env_rootfs_mount_fails :: env where
  "env_rootfs_mount_fails = env_dtbo_missing\<lparr>mount_rootfs := - 1\<rparr>"

text \<open>Neither userdata archive on the system slot.\<close>

definition env_no_userdata :: env where
  "env_no_userdata = env_all_good\<lparr>stat_userdata_img := False\<rparr>"

text \<open>A single-slot device without a super partition: slot A exists from the start.\<close>

definition env_no_super :: env where
  "env_no_super =
     env_all_good\<lparr>cmdline := Some ''console=tty0 quiet'', stat_super := False,
                   stat_system_a_pre := True, stat_system_b := False\<rparr>"

text \<open>\<^verbatim>\<open>boot.img\<close> missing from the system slot, \<^verbatim>\<open>boot.img-5.10\<close> on the rootfs volume.\<close>

definition env_boot_missing :: env where
  "env_boot_missing = env_all_good\<lparr>stat_boot_img := False, stat_boot_img_again := False\<rparr>"

text \<open>No boot or dtbo image anywhere: not on the system slot, not in the fallback.\<close>

definition env_no_images :: env where
  "env_no_images =
     env_all_good\<lparr>stat_boot_img := False, stat_dtbo_img := False,
                   stat_boot_img_again := False, stat_dtbo_img_again := False,
                   readdir_boot := demo_boot_dir_no_images,
                   readdir_rewound := demo_boot_dir_no_images\<rparr>"

text \<open>
  An unlock helper that accepts one password, reports a wrong password with 2 and fails
  with 1 on an empty one.
\<close>

definition demo_helper :: "string \<Rightarrow> int" where
  "demo_helper password =
     (if password = ''correct horse'' then EXIT_SUCCESS else if password = [] then 1 else 2)"

text \<open>
  A command line of 1024 bytes whose last parameter is the slot suffix: the read buffer of
  \<^verbatim>\<open>get_slot_suffix\<close> holds its first 1023 bytes.
\<close>

definition long_cmdline :: string where
  "long_cmdline = replicate 997 CHR ''x'' @ '' androidboot.slot_suffix=_a''"

subsection \<open>Vocabulary of the statements\<close>

text \<open>The system slot is mounted: the outcome of lines 714-733 that does not return.\<close>

definition system_slot_mounted :: "env \<Rightarrow> bool" where
  "system_slot_mounted e =
     ((stat_system_a e \<and> mount_system_a e = 0) \<or>
      (\<not> stat_system_a e \<and> stat_system_b e \<and> mount_system_b e = 0))"

text \<open>An archive was found and the extract-and-write command returned 0 (lines 735-752).\<close>

definition userdata_written :: "env \<Rightarrow> bool" where
  "userdata_written e =
     ((stat_userdata_img e \<or> stat_userdata_raw_img e) \<and> system_userdata e = 0)"

text \<open>The conditions of lines 786-788: an image is missing and the rootfs device exists.\<close>

definition fallback_entered :: "env \<Rightarrow> bool" where
  "fallback_entered e =
     ((\<not> stat_boot_img_again e \<or> \<not> stat_dtbo_img_again e) \<and> stat_rootfs e)"

text \<open>The run leaves through one of the two returns inside the fallback (lines 794, 801).\<close>

definition fallback_early_return :: "env \<Rightarrow> bool" where
  "fallback_early_return e =
     (system_slot_mounted e \<and> userdata_written e \<and> fallback_entered e \<and>
      (mount_rootfs e \<noteq> 0 \<or> \<not> opendir_boot e))"

text \<open>A command line that names the boot or the dtbo partition device.\<close>

definition writes_boot_or_dtbo :: "string \<Rightarrow> bool" where
  "writes_boot_or_dtbo cmd =
     (strstr cmd ''/dev/disk/by-partlabel/boot'' \<noteq> None \<or>
      strstr cmd ''/dev/disk/by-partlabel/dtbo'' \<noteq> None)"

text \<open>The notice of \<^verbatim>\<open>check_password\<close> once \<open>attempt_count\<close> has reached 3.\<close>

definition lockout_notice :: ui_event where
  "lockout_notice = Msgbox ''Maximum password attempt reached.'' []"

section \<open>Properties\<close>

subsection \<open>C strings\<close>

lemma c_str_no_NUL: "NUL \<notin> set (c_str b)"
  unfolding c_str_def by (induction b) auto

lemma c_str_id: "NUL \<notin> set s \<Longrightarrow> c_str s = s"
  unfolding c_str_def by (induction s) auto

lemma strstr_Some_D:
  "strstr h n = Some t \<Longrightarrow> \<exists>pre. h = pre @ t \<and> take (length n) t = n"
proof (induction h)
  case Nil
  then show ?case by (simp split: if_splits)
next
  case (Cons c cs)
  show ?case
  proof (cases "take (length n) (c # cs) = n")
    case True
    with Cons.prems have "t = c # cs" by simp
    with True show ?thesis by simp
  next
    case False
    with Cons.prems have "strstr cs n = Some t" by simp
    then obtain pre where "cs = pre @ t" "take (length n) t = n"
      using Cons.IH by blast
    then have "c # cs = (c # pre) @ t" by simp
    with \<open>take (length n) t = n\<close> show ?thesis by blast
  qed
qed

lemma strstr_first:
  "h = pre @ n @ post \<Longrightarrow> \<forall>p r. h = p @ n @ r \<longrightarrow> length pre \<le> length p \<Longrightarrow>
   strstr h n = Some (n @ post)"
proof (induction pre arbitrary: h)
  case Nil
  then have t: "take (length n) h = n" and e: "h = n @ post" by simp_all
  show ?case
  proof (cases h)
    case Nil
    with e show ?thesis by simp
  next
    case (Cons a list)
    with t have "take (length n) (a # list) = n" by simp
    with Cons e show ?thesis by simp
  qed
next
  case (Cons a pre)
  have h: "h = a # (pre @ n @ post)" using Cons.prems(1) by simp
  have nomatch: "take (length n) h \<noteq> n"
  proof
    assume "take (length n) h = n"
    then have "h = [] @ n @ drop (length n) h" by (metis append_Nil append_take_drop_id)
    with Cons.prems(2) have "length (a # pre) \<le> length ([]::string)" by blast
    then show False by simp
  qed
  have min: "\<forall>p r. pre @ n @ post = p @ n @ r \<longrightarrow> length pre \<le> length p"
  proof (intro allI impI)
    fix p r assume "pre @ n @ post = p @ n @ r"
    then have "h = (a # p) @ n @ r" using h by simp
    with Cons.prems(2) have "length (a # pre) \<le> length (a # p)" by blast
    then show "length pre \<le> length p" by simp
  qed
  have "strstr (pre @ n @ post) n = Some (n @ post)"
    using Cons.IH [OF refl min] .
  with nomatch h show ?case by simp
qed

lemma strstr_None:
  assumes absent: "\<forall>pre post. h \<noteq> pre @ n @ post"
  shows "strstr h n = None"
proof (cases "strstr h n")
  case None
  then show ?thesis .
next
  case (Some t)
  then obtain pre where "h = pre @ t" "take (length n) t = n"
    using strstr_Some_D by blast
  then have "h = pre @ n @ drop (length n) t" by (metis append_take_drop_id)
  with absent show ?thesis by blast
qed

lemma length_strncpy: "length (strncpy s n) \<le> n"
  by (simp add: strncpy_def)

lemma length_get_slot_suffix: "get_slot_suffix cl m = Some s \<Longrightarrow> length s \<le> 2"
  by (auto simp: get_slot_suffix_def length_strncpy split: option.splits if_splits)

lemma length_slot_suffix: "length (slot_suffix_or_default cl m) \<le> 2"
  by (auto simp: slot_suffix_or_default_def dest: length_get_slot_suffix split: option.splits)

lemma slot_suffix_absent:
  assumes "fgets 1024 content = Some buffer"
    and "\<forall>pre post. c_str buffer \<noteq> pre @ slot_key @ post"
  shows "slot_suffix_or_default (Some content) m = []"
  using assms strstr_None [of "c_str buffer" slot_key]
  by (simp add: slot_suffix_or_default_def get_slot_suffix_def)

lemma slot_suffix_present:
  assumes "fgets 1024 content = Some buffer"
    and "c_str buffer = pre @ slot_key @ post"
    and "\<forall>p r. c_str buffer = p @ slot_key @ r \<longrightarrow> length pre \<le> length p"
  shows "slot_suffix_or_default (Some content) True = take 2 post"
proof -
  have s: "strstr (c_str buffer) slot_key = Some (slot_key @ post)"
    using strstr_first [OF assms(2) assms(3)] .
  have "NUL \<notin> set (c_str buffer)" by (rule c_str_no_NUL)
  then have "NUL \<notin> set post" using assms(2) by simp
  then have "c_str post = post" by (rule c_str_id)
  with s assms(1) show ?thesis
    by (simp add: slot_suffix_or_default_def get_slot_suffix_def strncpy_def)
qed

lemma fgets_long_cmdline:
  "fgets 1024 long_cmdline = Some (replicate 997 CHR ''x'' @ '' androidboot.slot_suffix=_'')"
proof -
  have nonl: "\<forall>c\<in>set long_cmdline. c \<noteq> newline"
    by (auto simp: long_cmdline_def newline_def)
  then have tw: "takeWhile (\<lambda>c. c \<noteq> newline) long_cmdline = long_cmdline"
    by (simp add: takeWhile_eq_all_conv)
  from nonl have dw: "dropWhile (\<lambda>c. c \<noteq> newline) long_cmdline = []"
    by (simp add: dropWhile_eq_Nil_conv)
  have ne: "long_cmdline \<noteq> []" by (simp add: long_cmdline_def)
  have t: "take 1023 long_cmdline = replicate 997 CHR ''x'' @ '' androidboot.slot_suffix=_''"
    by (simp add: long_cmdline_def)
  show ?thesis unfolding fgets_def tw dw using ne t by simp
qed

lemma long_cmdline_first:
  assumes eq: "replicate 997 CHR ''x'' @ '' androidboot.slot_suffix=_'' = p @ slot_key @ r"
  shows "length (replicate 997 CHR ''x'' @ '' '') \<le> length p"
proof (rule ccontr)
  assume "\<not> length (replicate 997 CHR ''x'' @ '' '') \<le> length p"
  then have lt: "length p < 998" by simp
  have "(p @ slot_key @ r) ! length p = CHR ''a''"
    by (simp add: slot_key_def)
  with eq have a: "(replicate 997 CHR ''x'' @ '' androidboot.slot_suffix=_'') ! length p = CHR ''a''"
    by simp
  show False
  proof (cases "length p < 997")
    case True
    with a show False by (simp add: nth_append)
  next
    case False
    with lt have "length p = 997" by simp
    with a show False by (simp add: nth_append)
  qed
qed

subsection \<open>Slot resolution\<close>

text \<open>
  What the resolver computes from the buffer that \<^verbatim>\<open>fgets\<close> filled. The result never has
  more than two characters. It is empty when the command line cannot be opened or is
  empty, when the allocation fails, and when the buffer does not hold the key
  \<^verbatim>\<open>androidboot.slot_suffix=\<close>. When the buffer holds the key, the result is what follows
  its first occurrence there, cut to two characters.
\<close>

lemma slot_suffix_of_buffer:
  "length (slot_suffix_or_default cl m) \<le> 2 \<and>
   (cl = None \<or> cl = Some [] \<or> \<not> m \<longrightarrow> slot_suffix_or_default cl m = []) \<and>
   (\<forall>content buffer.
      cl = Some content \<and> fgets 1024 content = Some buffer \<and>
      (\<forall>pre post. c_str buffer \<noteq> pre @ slot_key @ post)
      \<longrightarrow> slot_suffix_or_default cl m = []) \<and>
   (\<forall>content buffer pre post.
      cl = Some content \<and> fgets 1024 content = Some buffer \<and> m \<and>
      c_str buffer = pre @ slot_key @ post \<and>
      (\<forall>p r. c_str buffer = p @ slot_key @ r \<longrightarrow> length pre \<le> length p)
      \<longrightarrow> slot_suffix_or_default cl m = take 2 post)"
proof (intro conjI allI impI)
  show "length (slot_suffix_or_default cl m) \<le> 2" by (rule length_slot_suffix)
next
  assume "cl = None \<or> cl = Some [] \<or> \<not> m"
  then show "slot_suffix_or_default cl m = []"
    by (auto simp: slot_suffix_or_default_def get_slot_suffix_def fgets_def split: option.splits)
next
  fix content buffer
  assume a: "cl = Some content \<and> fgets 1024 content = Some buffer \<and>
      (\<forall>pre post. c_str buffer \<noteq> pre @ slot_key @ post)"
  then have "slot_suffix_or_default (Some content) m = []"
    by (intro slot_suffix_absent [of content buffer]) simp_all
  with a show "slot_suffix_or_default cl m = []" by simp
next
  fix content buffer pre post
  assume a: "cl = Some content \<and> fgets 1024 content = Some buffer \<and> m \<and>
      c_str buffer = pre @ slot_key @ post \<and>
      (\<forall>p r. c_str buffer = p @ slot_key @ r \<longrightarrow> length pre \<le> length p)"
  then have "slot_suffix_or_default (Some content) True = take 2 post"
    by (intro slot_suffix_present [of content buffer pre post]) simp_all
  with a show "slot_suffix_or_default cl m = take 2 post" by simp
qed

text \<open>The three cases at concrete command lines.\<close>

lemma slot_suffix_of_buffer_examples:
  "slot_suffix_or_default (Some ''androidboot.slot_suffix=_b quiet'') True = ''_b'' \<and>
   slot_suffix_or_default None True = [] \<and>
   slot_suffix_or_default (Some ''quiet root=/dev/ram0'') True = []"
proof (intro conjI)
  let ?c = "''androidboot.slot_suffix=_b quiet''"
  have f: "fgets 1024 ?c = Some ?c" by (simp add: fgets_def newline_def)
  have h: "Some ?c = Some ?c \<and> fgets 1024 ?c = Some ?c \<and> True \<and>
      c_str ?c = [] @ slot_key @ ''_b quiet'' \<and>
      (\<forall>p r. c_str ?c = p @ slot_key @ r \<longrightarrow> length ([]::string) \<le> length p)"
    using f by (simp add: c_str_def NUL_def slot_key_def)
  have "slot_suffix_or_default (Some ?c) True = take 2 ''_b quiet''"
    by (rule slot_suffix_of_buffer [of "Some ?c" True, THEN conjunct2, THEN conjunct2,
          THEN conjunct2, rule_format, OF h])
  then show "slot_suffix_or_default (Some ?c) True = ''_b''" by simp
next
  show "slot_suffix_or_default None True = []"
    by (rule slot_suffix_of_buffer [of None True, THEN conjunct2, THEN conjunct1,
          rule_format]) simp
next
  let ?c = "''quiet root=/dev/ram0''"
  have f: "fgets 1024 ?c = Some ?c" by (simp add: fgets_def newline_def)
  have short: "\<forall>pre post. c_str ?c \<noteq> pre @ slot_key @ post"
  proof (intro allI notI)
    fix pre post assume "c_str ?c = pre @ slot_key @ post"
    then have "length (c_str ?c) = length (pre @ slot_key @ post)" by simp
    then show False by (simp add: c_str_def NUL_def slot_key_def)
  qed
  have h: "Some ?c = Some ?c \<and> fgets 1024 ?c = Some ?c \<and>
      (\<forall>pre post. c_str ?c \<noteq> pre @ slot_key @ post)"
    using f short by simp
  show "slot_suffix_or_default (Some ?c) True = []"
    by (rule slot_suffix_of_buffer [of "Some ?c" True, THEN conjunct2, THEN conjunct2,
          THEN conjunct1, rule_format, OF h])
qed

text \<open>
  C4. The resolver is to return the two-character token that follows
  \<^verbatim>\<open>androidboot.slot_suffix=\<close>; the comment on its prototype says it "returns current slot
  suffix from cmdline". The code reads the command line with one \<^verbatim>\<open>fgets\<close> into a
  1024-byte buffer, so it sees 1023 bytes. On a command line of 1024 bytes that ends in the
  parameter \<^verbatim>\<open>androidboot.slot_suffix=_a\<close> the buffer ends one byte before the token does,
  and the resolver returns the one-character string \<open>_\<close>: not the suffix \<open>_a\<close> of the
  command line, and not the empty default.
\<close>

theorem slot_suffix_cut_at_buffer_end:
  "slot_suffix_or_default (Some (replicate 997 CHR ''x'' @ '' androidboot.slot_suffix=_a'')) True
     = ''_''"
proof -
  let ?buffer = "replicate 997 CHR ''x'' @ '' androidboot.slot_suffix=_''"
  have nonul: "NUL \<notin> set ?buffer" by (auto simp: NUL_def)
  then have c: "c_str ?buffer = ?buffer" by (rule c_str_id)
  have split: "c_str ?buffer = (replicate 997 CHR ''x'' @ '' '') @ slot_key @ ''_''"
    by (simp add: c slot_key_def)
  have first: "\<forall>p r. c_str ?buffer = p @ slot_key @ r \<longrightarrow>
      length (replicate 997 CHR ''x'' @ '' '') \<le> length p"
    using long_cmdline_first by (simp only: c) blast
  have "slot_suffix_or_default (Some long_cmdline) True = take 2 ''_''"
    using slot_suffix_present [OF fgets_long_cmdline split first] .
  then show ?thesis by (simp add: long_cmdline_def)
qed

subsection \<open>Commands\<close>

lemma snprintf_fits: "length s < n \<Longrightarrow> snprintf n s = s"
  by (simp add: snprintf_def)

lemma snprintf_dmsetup_cmd: "snprintf 1024 dmsetup_cmd = dmsetup_cmd"
  by (rule snprintf_fits) (simp add: dmsetup_cmd_def)

lemma snprintf_userdata_cmd: "snprintf 1024 userdata_cmd = userdata_cmd"
  by (rule snprintf_fits) (simp add: userdata_cmd_def)

lemma snprintf_userdata_raw_cmd: "snprintf 1024 userdata_raw_cmd = userdata_raw_cmd"
  by (rule snprintf_fits) (simp add: userdata_raw_cmd_def)

lemma dd_boot_system_cmd_exact:
  "length s \<le> 2 \<Longrightarrow>
   dd_boot_system_cmd s = ''dd if=/system_mnt/boot.img of=/dev/disk/by-partlabel/boot'' @ s @ '' bs=4M''"
  unfolding dd_boot_system_cmd_def by (rule snprintf_fits) simp

lemma dd_dtbo_system_cmd_exact:
  "length s \<le> 2 \<Longrightarrow>
   dd_dtbo_system_cmd s = ''dd if=/system_mnt/dtbo.img of=/dev/disk/by-partlabel/dtbo'' @ s @ '' bs=4M''"
  unfolding dd_dtbo_system_cmd_def by (rule snprintf_fits) simp

lemma dd_boot_rootfs_cmd_exact:
  assumes "length f \<le> 255" "length s \<le> 2"
  shows \<open>dd_boot_rootfs_cmd f s =
     ''dd if="/rootfs_mnt/boot/'' @ f @ ''" of="/dev/disk/by-partlabel/boot'' @ s @ ''" bs=4M''\<close>
proof -
  have "snprintf 512 (''/rootfs_mnt/boot/'' @ f) = ''/rootfs_mnt/boot/'' @ f"
    using assms(1) by (intro snprintf_fits) simp
  moreover have \<open>snprintf 1024 (''dd if="'' @ (''/rootfs_mnt/boot/'' @ f) @
        ''" of="/dev/disk/by-partlabel/boot'' @ s @ ''" bs=4M'') =
      ''dd if="'' @ (''/rootfs_mnt/boot/'' @ f) @
        ''" of="/dev/disk/by-partlabel/boot'' @ s @ ''" bs=4M''\<close>
    using assms by (intro snprintf_fits) simp
  ultimately show ?thesis by (simp add: dd_boot_rootfs_cmd_def)
qed

lemma dd_dtbo_rootfs_cmd_exact:
  assumes "length f \<le> 255" "length s \<le> 2"
  shows \<open>dd_dtbo_rootfs_cmd f s =
     ''dd if="/rootfs_mnt/boot/'' @ f @ ''" of="/dev/disk/by-partlabel/dtbo'' @ s @ ''" bs=4M''\<close>
proof -
  have "snprintf 512 (''/rootfs_mnt/boot/'' @ f) = ''/rootfs_mnt/boot/'' @ f"
    using assms(1) by (intro snprintf_fits) simp
  moreover have \<open>snprintf 1024 (''dd if="'' @ (''/rootfs_mnt/boot/'' @ f) @
        ''" of="/dev/disk/by-partlabel/dtbo'' @ s @ ''" bs=4M'') =
      ''dd if="'' @ (''/rootfs_mnt/boot/'' @ f) @
        ''" of="/dev/disk/by-partlabel/dtbo'' @ s @ ''" bs=4M''\<close>
    using assms by (intro snprintf_fits) simp
  ultimately show ?thesis by (simp add: dd_dtbo_rootfs_cmd_def)
qed

text \<open>Every \<^verbatim>\<open>dd\<close> command differs from the activation command in its second byte.\<close>

lemma snprintf_dd_neq_dmsetup:
  "snprintf 1024 (CHR ''d'' # CHR ''d'' # rest) \<noteq> dmsetup_cmd"
  by (simp add: snprintf_def dmsetup_cmd_def)

lemma dd_cmds_neq_dmsetup:
  "dd_boot_system_cmd s \<noteq> dmsetup_cmd" "dd_dtbo_system_cmd s \<noteq> dmsetup_cmd"
  "dd_boot_rootfs_cmd f s \<noteq> dmsetup_cmd" "dd_dtbo_rootfs_cmd f s \<noteq> dmsetup_cmd"
  using snprintf_dd_neq_dmsetup
  by (simp_all add: dd_boot_system_cmd_def dd_dtbo_system_cmd_def dd_boot_rootfs_cmd_def
      dd_dtbo_rootfs_cmd_def)

lemma userdata_cmds_neq_dmsetup:
  "userdata_cmd \<noteq> dmsetup_cmd" "userdata_raw_cmd \<noteq> dmsetup_cmd"
  by (simp_all add: userdata_cmd_def userdata_raw_cmd_def dmsetup_cmd_def)

subsection \<open>The directory search\<close>

lemma find_image_find:
  "find_image pre ds =
     (case find (\<lambda>d. take (length pre) (c_str d) = pre) ds of
        None \<Rightarrow> [] | Some d \<Rightarrow> take 255 (c_str d))"
  by (induction ds) (simp_all add: strncpy_def)

subsection \<open>The phases of \<open>factory_reset\<close>\<close>

lemma mount_system_None: "fst (mount_system e) = None \<longleftrightarrow> system_slot_mounted e"
  by (auto simp: mount_system_def system_slot_mounted_def)

lemma mount_system_Some: "fst (mount_system e) = Some r \<Longrightarrow> r = - 1"
  by (auto simp: mount_system_def split: if_splits)

lemma write_userdata_None: "fst (write_userdata e) = None \<longleftrightarrow> userdata_written e"
  by (auto simp: write_userdata_def run_userdata_cmd_def userdata_written_def)

lemma write_userdata_Some: "fst (write_userdata e) = Some r \<Longrightarrow> r = - 1"
  by (auto simp: write_userdata_def run_userdata_cmd_def split: if_splits)

lemma rootfs_fallback_None:
  "fst (rootfs_fallback e s) = None \<longleftrightarrow>
   \<not> (fallback_entered e \<and> (mount_rootfs e \<noteq> 0 \<or> \<not> opendir_boot e))"
  by (auto simp: rootfs_fallback_def fallback_entered_def)

lemma rootfs_fallback_Some: "fst (rootfs_fallback e s) = Some r \<Longrightarrow> r = - 1"
  by (auto simp: rootfs_fallback_def split: if_splits)

text \<open>The three ways through \<open>factory_reset\<close>, by the phase that ends it.\<close>

lemma factory_reset_not_mounted:
  assumes "\<not> system_slot_mounted e"
  shows "factory_reset e = (- 1, [DropCaches] @ activate_dynparts e @ snd (mount_system e))"
proof -
  obtain r t where m: "mount_system e = (r, t)" by (cases "mount_system e")
  with assms mount_system_None [of e] obtain x where "r = Some x" by (cases r) auto
  moreover from this m mount_system_Some [of e x] have "x = - 1" by simp
  ultimately show ?thesis using m by (simp add: factory_reset_def)
qed

lemma factory_reset_not_written:
  assumes "system_slot_mounted e" "\<not> userdata_written e"
  shows "factory_reset e =
     (- 1, [DropCaches] @ activate_dynparts e @ snd (mount_system e) @ snd (write_userdata e))"
proof -
  obtain t1 where m: "mount_system e = (None, t1)"
    using assms(1) mount_system_None [of e] by (cases "mount_system e") auto
  obtain r t2 where w: "write_userdata e = (r, t2)" by (cases "write_userdata e")
  with assms(2) write_userdata_None [of e] obtain x where "r = Some x" by (cases r) auto
  moreover from this w write_userdata_Some [of e x] have "x = - 1" by simp
  ultimately show ?thesis using m w by (simp add: factory_reset_def)
qed

lemma factory_reset_written:
  assumes "system_slot_mounted e" "userdata_written e"
  shows "factory_reset e =
     (let s = slot_suffix_or_default (cmdline e) (malloc_ok e);
          t = [DropCaches] @ activate_dynparts e @ snd (mount_system e) @
              snd (write_userdata e) @ flash_from_system e s @ snd (rootfs_fallback e s)
      in if fst (rootfs_fallback e s) = None then (0, t @ [Umount ''/system_mnt'', DropCaches])
         else (- 1, t))"
proof -
  obtain t1 where m: "mount_system e = (None, t1)"
    using assms(1) mount_system_None [of e] by (cases "mount_system e") auto
  obtain t2 where w: "write_userdata e = (None, t2)"
    using assms(2) write_userdata_None [of e] by (cases "write_userdata e") auto
  let ?s = "slot_suffix_or_default (cmdline e) (malloc_ok e)"
  obtain r t4 where f: "rootfs_fallback e ?s = (r, t4)" by (cases "rootfs_fallback e ?s")
  show ?thesis
  proof (cases r)
    case None
    with m w f show ?thesis by (simp add: factory_reset_def Let_def)
  next
    case (Some x)
    with f rootfs_fallback_Some [of e ?s x] have "x = - 1" by simp
    with Some m w f show ?thesis by (simp add: factory_reset_def Let_def)
  qed
qed

subsection \<open>Mounts along a trace\<close>

lemma foldl_activate_dynparts [simp]: "foldl apply_event ms (activate_dynparts e) = ms"
  by (simp add: activate_dynparts_def)

lemma foldl_flash_from_system [simp]: "foldl apply_event ms (flash_from_system e s) = ms"
  by (simp add: flash_from_system_def)

lemma foldl_flash_from_rootfs [simp]: "foldl apply_event ms (flash_from_rootfs e s) = ms"
  by (simp add: flash_from_rootfs_def Let_def)

lemma foldl_mount_system:
  "foldl apply_event ms (snd (mount_system e)) =
     (if system_slot_mounted e then ''/system_mnt'' # ms else ms)"
  by (auto simp: mount_system_def system_slot_mounted_def)

lemma foldl_write_userdata:
  "foldl apply_event (''/system_mnt'' # ms) (snd (write_userdata e)) =
     (if userdata_written e then ''/system_mnt'' # ms else ms)"
  by (auto simp: write_userdata_def run_userdata_cmd_def userdata_written_def)

lemma foldl_rootfs_fallback:
  "fst (rootfs_fallback e s) = None \<Longrightarrow> foldl apply_event ms (snd (rootfs_fallback e s)) = ms"
  by (auto simp: rootfs_fallback_def split: if_splits)

lemma open_mounts_factory_reset:
  assumes "\<not> fallback_early_return e"
  shows "open_mounts (snd (factory_reset e)) = []"
proof (cases "system_slot_mounted e")
  case False
  then show ?thesis
    by (simp add: factory_reset_not_mounted open_mounts_def foldl_mount_system)
next
  case m: True
  show ?thesis
  proof (cases "userdata_written e")
    case False
    with m show ?thesis
      by (simp add: factory_reset_not_written open_mounts_def foldl_mount_system
          foldl_write_userdata)
  next
    case w: True
    let ?s = "slot_suffix_or_default (cmdline e) (malloc_ok e)"
    from assms m w have "fst (rootfs_fallback e ?s) = None"
      by (simp add: rootfs_fallback_None fallback_early_return_def)
    with m w show ?thesis
      by (simp add: factory_reset_written Let_def open_mounts_def foldl_mount_system
          foldl_write_userdata foldl_rootfs_fallback)
  qed
qed

lemma mounts_done_append [simp]: "mounts_done tgt (t @ u) = mounts_done tgt t + mounts_done tgt u"
  by (simp add: mounts_done_def)

lemma umounts_done_append [simp]:
  "umounts_done tgt (t @ u) = umounts_done tgt t + umounts_done tgt u"
  by (simp add: umounts_done_def)

lemma mounts_done_simps [simp]:
  "mounts_done tgt [] = 0"
  "mounts_done tgt (ev # t) = (if is_mount_of tgt ev then 1 else 0) + mounts_done tgt t"
  by (simp_all add: mounts_done_def)

lemma umounts_done_simps [simp]:
  "umounts_done tgt [] = 0"
  "umounts_done tgt (ev # t) = (if ev = Umount tgt then 1 else 0) + umounts_done tgt t"
  by (simp_all add: umounts_done_def)

lemma no_mounts_activate [simp]:
  "mounts_done tgt (activate_dynparts e) = 0" "umounts_done tgt (activate_dynparts e) = 0"
  by (simp_all add: activate_dynparts_def)

lemma no_mounts_flash_system [simp]:
  "mounts_done tgt (flash_from_system e s) = 0" "umounts_done tgt (flash_from_system e s) = 0"
  by (simp_all add: flash_from_system_def)

lemma no_mounts_flash_rootfs [simp]:
  "mounts_done tgt (flash_from_rootfs e s) = 0" "umounts_done tgt (flash_from_rootfs e s) = 0"
  by (simp_all add: flash_from_rootfs_def Let_def)

lemma mounts_mount_system:
  "mounts_done tgt (snd (mount_system e)) =
     (if system_slot_mounted e \<and> tgt = ''/system_mnt'' then 1 else 0)"
  "umounts_done tgt (snd (mount_system e)) = 0"
  by (auto simp: mount_system_def system_slot_mounted_def)

lemma mounts_write_userdata:
  "mounts_done tgt (snd (write_userdata e)) = 0"
  "umounts_done tgt (snd (write_userdata e)) =
     (if \<not> userdata_written e \<and> tgt = ''/system_mnt'' then 1 else 0)"
  by (auto simp: write_userdata_def run_userdata_cmd_def userdata_written_def)

lemma mounts_rootfs_fallback:
  "fst (rootfs_fallback e s) = None \<Longrightarrow>
   mounts_done tgt (snd (rootfs_fallback e s)) = umounts_done tgt (snd (rootfs_fallback e s))"
  by (auto simp: rootfs_fallback_def split: if_splits)

lemma mounts_rootfs_fallback_system [simp]:
  "mounts_done ''/system_mnt'' (snd (rootfs_fallback e s)) = 0"
  by (auto simp: rootfs_fallback_def)

lemma mounts_balanced_factory_reset:
  assumes "\<not> fallback_early_return e"
  shows "mounts_done tgt (snd (factory_reset e)) = umounts_done tgt (snd (factory_reset e))"
proof (cases "system_slot_mounted e")
  case False
  then show ?thesis
    by (simp add: factory_reset_not_mounted mounts_mount_system)
next
  case m: True
  show ?thesis
  proof (cases "userdata_written e")
    case False
    with m show ?thesis
      by (simp add: factory_reset_not_written mounts_mount_system mounts_write_userdata)
  next
    case w: True
    let ?s = "slot_suffix_or_default (cmdline e) (malloc_ok e)"
    from assms m w have n: "fst (rootfs_fallback e ?s) = None"
      by (simp add: rootfs_fallback_None fallback_early_return_def)
    with m w mounts_rootfs_fallback [OF n, of tgt] show ?thesis
      by (simp add: factory_reset_written Let_def mounts_mount_system mounts_write_userdata)
  qed
qed

lemma open_mounts_handler: "open_mounts (t @ sigaction_handler) = open_mounts t"
  by (simp add: open_mounts_def sigaction_handler_def)

subsection \<open>Runs on the concrete environments\<close>

lemmas env_defs = env_all_good_def env_dtbo_missing_def env_rootfs_mount_fails_def
  env_no_userdata_def env_no_super_def env_boot_missing_def env_no_images_def

lemmas phase_defs = activate_dynparts_def mount_system_def run_userdata_cmd_def
  write_userdata_def flash_from_system_def flash_from_rootfs_def rootfs_fallback_def

lemmas vocabulary_defs = system_slot_mounted_def userdata_written_def fallback_entered_def
  fallback_early_return_def

lemma slot_suffix_demo [simp]:
  "slot_suffix_or_default (Some demo_cmdline) True = ''_a''"
  by (simp add: demo_cmdline_def slot_suffix_or_default_def get_slot_suffix_def fgets_def c_str_def strncpy_def
      slot_key_def newline_def NUL_def)

lemma slot_suffix_none [simp]:
  "slot_suffix_or_default (Some ''console=tty0 quiet'') True = []"
  by (simp add: slot_suffix_or_default_def get_slot_suffix_def fgets_def c_str_def strncpy_def
      slot_key_def newline_def NUL_def)

lemma find_image_demo [simp]:
  "find_image ''boot.img'' demo_boot_dir = ''boot.img-5.10''"
  "find_image ''dtbo.img'' demo_boot_dir = []"
  "find_image ''boot.img'' demo_boot_dir_no_images = []"
  "find_image ''dtbo.img'' demo_boot_dir_no_images = []"
  by (simp_all add: demo_boot_dir_def demo_boot_dir_no_images_def c_str_def strncpy_def NUL_def)

lemma run_no_super:
  "factory_reset env_no_super =
     (0, [DropCaches, Mkdir ''/system_mnt'',
          Mount ''/dev/mapper/dynpart-system_a'' ''/system_mnt'' 0,
          System userdata_cmd,
          System ''dd if=/system_mnt/boot.img of=/dev/disk/by-partlabel/boot bs=4M'',
          System ''dd if=/system_mnt/dtbo.img of=/dev/disk/by-partlabel/dtbo bs=4M'',
          Umount ''/system_mnt'', DropCaches])"
  by (simp add: factory_reset_def phase_defs env_defs snprintf_userdata_cmd
      dd_boot_system_cmd_exact dd_dtbo_system_cmd_exact)

lemma run_dtbo_missing:
  "factory_reset env_dtbo_missing =
     (0, [DropCaches, System dmsetup_cmd, Mkdir ''/system_mnt'',
          Mount ''/dev/mapper/dynpart-system_a'' ''/system_mnt'' 0,
          System userdata_cmd,
          System ''dd if=/system_mnt/boot.img of=/dev/disk/by-partlabel/boot_a bs=4M'',
          Mkdir ''/rootfs_mnt'',
          Mount ''/dev/mapper/droidian-droidian--rootfs'' ''/rootfs_mnt'' 0,
          System (''dd if='' @ [CHR 0x22] @ ''/rootfs_mnt/boot/boot.img-5.10'' @ [CHR 0x22] @
                  '' of='' @ [CHR 0x22] @ ''/dev/disk/by-partlabel/boot_a'' @ [CHR 0x22] @
                  '' bs=4M''),
          Umount ''/rootfs_mnt'', Umount ''/system_mnt'', DropCaches])"
  by (simp add: factory_reset_def phase_defs env_defs snprintf_userdata_cmd snprintf_dmsetup_cmd
      dd_boot_system_cmd_exact dd_dtbo_system_cmd_exact dd_boot_rootfs_cmd_exact
      dd_dtbo_rootfs_cmd_exact)

lemma run_rootfs_mount_fails:
  "factory_reset env_rootfs_mount_fails =
     (- 1, [DropCaches, System dmsetup_cmd, Mkdir ''/system_mnt'',
          Mount ''/dev/mapper/dynpart-system_a'' ''/system_mnt'' 0,
          System userdata_cmd,
          System ''dd if=/system_mnt/boot.img of=/dev/disk/by-partlabel/boot_a bs=4M'',
          Mkdir ''/rootfs_mnt'',
          Mount ''/dev/mapper/droidian-droidian--rootfs'' ''/rootfs_mnt'' (- 1)])"
  by (simp add: factory_reset_def phase_defs env_defs snprintf_userdata_cmd snprintf_dmsetup_cmd
      dd_boot_system_cmd_exact dd_dtbo_system_cmd_exact)

lemma run_no_userdata:
  "factory_reset env_no_userdata =
     (- 1, [DropCaches, System dmsetup_cmd, Mkdir ''/system_mnt'',
          Mount ''/dev/mapper/dynpart-system_a'' ''/system_mnt'' 0, Umount ''/system_mnt''])"
  by (simp add: factory_reset_def phase_defs env_defs snprintf_dmsetup_cmd)

lemma run_no_images:
  "factory_reset env_no_images =
     (0, [DropCaches, System dmsetup_cmd, Mkdir ''/system_mnt'',
          Mount ''/dev/mapper/dynpart-system_a'' ''/system_mnt'' 0,
          System userdata_cmd,
          Mkdir ''/rootfs_mnt'',
          Mount ''/dev/mapper/droidian-droidian--rootfs'' ''/rootfs_mnt'' 0,
          Umount ''/rootfs_mnt'', Umount ''/system_mnt'', DropCaches])"
  by (simp add: factory_reset_def phase_defs env_defs snprintf_userdata_cmd snprintf_dmsetup_cmd)

text \<open>
  The return of line 794 leaves \<^verbatim>\<open>/system_mnt\<close> mounted: unlike the returns of lines 743
  and 751 it makes no \<^verbatim>\<open>umount\<close> call. The return of line 801 behaves the same after
  unmounting \<^verbatim>\<open>/rootfs_mnt\<close> only.
\<close>

lemma fallback_return_leaves_system_mnt:
  "open_mounts (snd (factory_reset env_rootfs_mount_fails)) = [''/system_mnt'']"
  by (simp add: run_rootfs_mount_fails open_mounts_def)

subsection \<open>Scratch mounts\<close>

text \<open>
  C1, as the code has it. On every return of \<^verbatim>\<open>factory_reset\<close> other than the two
  returns inside the rootfs fallback (lines 794 and 801), no scratch mount is open and,
  for each mount point, the successful mounts of the run equal its unmount calls. A
  termination signal delivered mid-run ends the process in \<^verbatim>\<open>sigaction_handler\<close>, which
  unmounts nothing: the scratch mounts open at delivery stay open.
\<close>

theorem scratch_mounts_balanced:
  assumes "\<not> fallback_early_return e"
  shows "open_mounts (snd (factory_reset e)) = [] \<and>
         (\<forall>tgt. mounts_done tgt (snd (factory_reset e)) =
                umounts_done tgt (snd (factory_reset e))) \<and>
         (\<forall>k. open_mounts (interrupted_reset e k) =
              open_mounts (take k (snd (factory_reset e))))"
  using assms
  by (simp add: open_mounts_factory_reset mounts_balanced_factory_reset interrupted_reset_def
      open_mounts_handler)

text \<open>
  The claim as written fails on signal delivery: on a single-slot device, a signal that
  arrives after the third call of the run (the mount of the system slot) ends the process
  with \<^verbatim>\<open>/system_mnt\<close> mounted.
\<close>

theorem signal_leaves_mount_counterexample:
  "interrupted_reset env_no_super 3 =
     [DropCaches, Mkdir ''/system_mnt'',
      Mount ''/dev/mapper/dynpart-system_a'' ''/system_mnt'' 0, ResetTerminal, Exit 0] \<and>
   open_mounts (interrupted_reset env_no_super 3) = [''/system_mnt'']"
  by (simp add: interrupted_reset_def run_no_super sigaction_handler_def open_mounts_def)

text \<open>A run that mounts and unmounts both scratch directories.\<close>

theorem scratch_mounts_balanced_witness:
  "\<not> fallback_early_return env_dtbo_missing \<and>
   open_mounts (snd (factory_reset env_dtbo_missing)) = [] \<and>
   mounts_done ''/rootfs_mnt'' (snd (factory_reset env_dtbo_missing)) =
     umounts_done ''/rootfs_mnt'' (snd (factory_reset env_dtbo_missing))"
proof -
  have h: "\<not> fallback_early_return env_dtbo_missing"
    by (simp add: vocabulary_defs env_defs)
  from scratch_mounts_balanced [OF h] h show ?thesis by blast
qed

subsection \<open>Outcome after the userdata write\<close>

text \<open>
  C3, as the code has it. When the system slot is mounted and the userdata
  extract-and-write step succeeds, \<^verbatim>\<open>factory_reset\<close> returns 0 whatever the boot and dtbo
  steps do (images missing from the system slot and from the fallback, a \<^verbatim>\<open>dd\<close> that
  fails, no rootfs device), with one exception: when an image is missing from the system
  slot and the rootfs device exists, a failed mount of the rootfs volume or a failed
  \<^verbatim>\<open>opendir\<close> of its boot directory makes it return -1.
\<close>

theorem userdata_success_outcome:
  assumes "system_slot_mounted e" and "userdata_written e"
  shows "fst (factory_reset e) =
           (if fallback_entered e \<and> (mount_rootfs e \<noteq> 0 \<or> \<not> opendir_boot e) then - 1 else 0)"
  using assms by (simp add: factory_reset_written Let_def rootfs_fallback_None)

text \<open>
  The claim as written fails when the mount of the rootfs volume fails: userdata has been
  written, \<^verbatim>\<open>dtbo.img\<close> is missing from the system slot, and the run returns -1.
\<close>

theorem rootfs_mount_failure_fatal_counterexample:
  "system_slot_mounted env_rootfs_mount_fails \<and> userdata_written env_rootfs_mount_fails \<and>
   mount_rootfs env_rootfs_mount_fails \<noteq> 0 \<and>
   fst (factory_reset env_rootfs_mount_fails) = - 1"
proof (intro conjI)
  show "system_slot_mounted env_rootfs_mount_fails" by (simp add: vocabulary_defs env_defs)
  show "userdata_written env_rootfs_mount_fails" by (simp add: vocabulary_defs env_defs)
  show "mount_rootfs env_rootfs_mount_fails \<noteq> 0" by (simp add: env_defs)
  show "fst (factory_reset env_rootfs_mount_fails) = - 1" by (simp add: run_rootfs_mount_fails)
qed

text \<open>No image anywhere, userdata written: the run returns 0.\<close>

theorem userdata_success_outcome_witness:
  "system_slot_mounted env_no_images \<and> userdata_written env_no_images \<and>
   fst (factory_reset env_no_images) = 0"
proof -
  have m: "system_slot_mounted env_no_images" by (simp add: vocabulary_defs env_defs)
  have w: "userdata_written env_no_images" by (simp add: vocabulary_defs env_defs)
  have ok: "\<not> (fallback_entered env_no_images \<and>
      (mount_rootfs env_no_images \<noteq> 0 \<or> \<not> opendir_boot env_no_images))"
    by (simp add: env_defs)
  from userdata_success_outcome [OF m w] ok have "fst (factory_reset env_no_images) = 0"
    by simp
  with m w show ?thesis by simp
qed

subsection \<open>Topology resolution\<close>

lemma mount_calls_mount_system: "length (filter is_mount_call (snd (mount_system e))) \<le> 1"
  by (simp add: mount_system_def)

lemma mounts_done_system_mnt_le: "mounts_done ''/system_mnt'' (snd (factory_reset e)) \<le> 1"
proof (cases "system_slot_mounted e")
  case False
  then show ?thesis by (simp add: factory_reset_not_mounted mounts_mount_system)
next
  case m: True
  show ?thesis
  proof (cases "userdata_written e")
    case False
    with m show ?thesis
      by (simp add: factory_reset_not_written mounts_mount_system mounts_write_userdata)
  next
    case True
    with m show ?thesis
      by (simp add: factory_reset_written Let_def mounts_mount_system mounts_write_userdata)
  qed
qed

lemma mount_calls_on_system_mnt:
  "filter (is_mount_on ''/system_mnt'') (snd (factory_reset e)) =
     (if stat_system_a e
      then [Mount ''/dev/mapper/dynpart-system_a'' ''/system_mnt'' (mount_system_a e)]
      else if stat_system_b e
      then [Mount ''/dev/mapper/dynpart-system_b'' ''/system_mnt'' (mount_system_b e)]
      else [])"
proof -
  have a: "filter (is_mount_on ''/system_mnt'') (activate_dynparts e) = []"
    by (simp add: activate_dynparts_def)
  have m: "filter (is_mount_on ''/system_mnt'') (snd (mount_system e)) =
     (if stat_system_a e
      then [Mount ''/dev/mapper/dynpart-system_a'' ''/system_mnt'' (mount_system_a e)]
      else if stat_system_b e
      then [Mount ''/dev/mapper/dynpart-system_b'' ''/system_mnt'' (mount_system_b e)]
      else [])"
    by (simp add: mount_system_def)
  have w: "filter (is_mount_on ''/system_mnt'') (snd (write_userdata e)) = []"
    by (simp add: write_userdata_def run_userdata_cmd_def)
  have f: "filter (is_mount_on ''/system_mnt'') (flash_from_system e s) = []" for s
    by (simp add: flash_from_system_def)
  have r: "filter (is_mount_on ''/system_mnt'') (flash_from_rootfs e s) = []" for s
    by (simp add: flash_from_rootfs_def Let_def)
  have b: "filter (is_mount_on ''/system_mnt'') (snd (rootfs_fallback e s)) = []" for s
    by (simp add: rootfs_fallback_def r)
  show ?thesis
  proof (cases "system_slot_mounted e")
    case False
    then show ?thesis by (simp add: factory_reset_not_mounted a m)
  next
    case sm: True
    show ?thesis
    proof (cases "userdata_written e")
      case False
      with sm show ?thesis by (simp add: factory_reset_not_written a m w)
    next
      case True
      with sm show ?thesis by (simp add: factory_reset_written Let_def a m w f b)
    qed
  qed
qed

lemma factory_reset_starts_with_topology:
  "\<exists>rest. snd (factory_reset e) =
            DropCaches # activate_dynparts e @ snd (mount_system e) @ rest \<and>
          (\<not> system_slot_mounted e \<longrightarrow> rest = [])"
proof (cases "system_slot_mounted e")
  case False
  then show ?thesis by (simp add: factory_reset_not_mounted)
next
  case sm: True
  show ?thesis
  proof (cases "userdata_written e")
    case False
    with sm show ?thesis by (simp add: factory_reset_not_written)
  next
    case True
    with sm show ?thesis by (simp add: factory_reset_written Let_def)
  qed
qed

text \<open>
  C7. Topology resolution (lines 714-733) ends in one of three ways: slot A mounted,
  slot B mounted, or a return of -1. The run of \<^verbatim>\<open>factory_reset\<close> begins with the cache
  drop, the activation step and then this step, and the only \<^verbatim>\<open>mount\<close> call it ever makes
  on \<^verbatim>\<open>/system_mnt\<close> is the one made here: on \<^verbatim>\<open>dynpart-system_a\<close> when that device exists,
  also when \<^verbatim>\<open>dynpart-system_b\<close> exists; otherwise on \<^verbatim>\<open>dynpart-system_b\<close> when it exists;
  on none when neither exists. So at most one mount is performed, never two. When neither
  device exists or the chosen \<^verbatim>\<open>mount\<close> fails, the run ends there: \<^verbatim>\<open>factory_reset\<close>
  returns -1 with nothing mounted. Otherwise exactly \<^verbatim>\<open>/system_mnt\<close> is mounted when the
  step is over.
\<close>

theorem topology_resolution:
  "filter (is_mount_on ''/system_mnt'') (snd (factory_reset e)) =
     (if stat_system_a e
      then [Mount ''/dev/mapper/dynpart-system_a'' ''/system_mnt'' (mount_system_a e)]
      else if stat_system_b e
      then [Mount ''/dev/mapper/dynpart-system_b'' ''/system_mnt'' (mount_system_b e)]
      else []) \<and>
   (\<exists>rest. snd (factory_reset e) =
             DropCaches # activate_dynparts e @ snd (mount_system e) @ rest \<and>
           (\<not> system_slot_mounted e \<longrightarrow> rest = [])) \<and>
   (stat_system_a e \<longrightarrow>
      snd (mount_system e) =
        [Mkdir ''/system_mnt'',
         Mount ''/dev/mapper/dynpart-system_a'' ''/system_mnt'' (mount_system_a e)]) \<and>
   (\<not> stat_system_a e \<and> stat_system_b e \<longrightarrow>
      snd (mount_system e) =
        [Mkdir ''/system_mnt'',
         Mount ''/dev/mapper/dynpart-system_b'' ''/system_mnt'' (mount_system_b e)]) \<and>
   (\<not> stat_system_a e \<and> \<not> stat_system_b e \<longrightarrow> snd (mount_system e) = [Mkdir ''/system_mnt'']) \<and>
   (fst (mount_system e) = None \<or> fst (mount_system e) = Some (- 1)) \<and>
   (system_slot_mounted e \<longrightarrow>
      fst (mount_system e) = None \<and> open_mounts (snd (mount_system e)) = [''/system_mnt''] \<and>
      open_mounts (DropCaches # activate_dynparts e @ snd (mount_system e)) =
        [''/system_mnt'']) \<and>
   (\<not> system_slot_mounted e \<longrightarrow>
      fst (mount_system e) = Some (- 1) \<and> open_mounts (snd (mount_system e)) = [] \<and>
      fst (factory_reset e) = - 1 \<and> open_mounts (snd (factory_reset e)) = [] \<and>
      snd (factory_reset e) = DropCaches # activate_dynparts e @ snd (mount_system e)) \<and>
   length (filter is_mount_call (snd (mount_system e))) \<le> 1 \<and>
   length (filter (is_mount_on ''/system_mnt'') (snd (factory_reset e))) \<le> 1 \<and>
   mounts_done ''/system_mnt'' (snd (factory_reset e)) \<le> 1"
proof (intro conjI impI)
  show "filter (is_mount_on ''/system_mnt'') (snd (factory_reset e)) =
     (if stat_system_a e
      then [Mount ''/dev/mapper/dynpart-system_a'' ''/system_mnt'' (mount_system_a e)]
      else if stat_system_b e
      then [Mount ''/dev/mapper/dynpart-system_b'' ''/system_mnt'' (mount_system_b e)]
      else [])"
    by (rule mount_calls_on_system_mnt)
  show "\<exists>rest. snd (factory_reset e) =
             DropCaches # activate_dynparts e @ snd (mount_system e) @ rest \<and>
           (\<not> system_slot_mounted e \<longrightarrow> rest = [])"
    by (rule factory_reset_starts_with_topology)
  show "length (filter is_mount_call (snd (mount_system e))) \<le> 1"
    by (rule mount_calls_mount_system)
  show "length (filter (is_mount_on ''/system_mnt'') (snd (factory_reset e))) \<le> 1"
    by (simp add: mount_calls_on_system_mnt)
  show "mounts_done ''/system_mnt'' (snd (factory_reset e)) \<le> 1"
    by (rule mounts_done_system_mnt_le)
  show "fst (mount_system e) = None \<or> fst (mount_system e) = Some (- 1)"
    by (simp add: mount_system_def)
next
  assume "stat_system_a e"
  then show "snd (mount_system e) =
        [Mkdir ''/system_mnt'',
         Mount ''/dev/mapper/dynpart-system_a'' ''/system_mnt'' (mount_system_a e)]"
    by (simp add: mount_system_def)
next
  assume "\<not> stat_system_a e \<and> stat_system_b e"
  then show "snd (mount_system e) =
        [Mkdir ''/system_mnt'',
         Mount ''/dev/mapper/dynpart-system_b'' ''/system_mnt'' (mount_system_b e)]"
    by (simp add: mount_system_def)
next
  assume "\<not> stat_system_a e \<and> \<not> stat_system_b e"
  then show "snd (mount_system e) = [Mkdir ''/system_mnt'']"
    by (simp add: mount_system_def)
next
  assume m: "system_slot_mounted e"
  then show "fst (mount_system e) = None" by (simp add: mount_system_None)
  from m show "open_mounts (snd (mount_system e)) = [''/system_mnt'']"
    by (simp add: open_mounts_def foldl_mount_system)
  from m show "open_mounts (DropCaches # activate_dynparts e @ snd (mount_system e)) =
        [''/system_mnt'']"
    by (simp add: open_mounts_def foldl_mount_system)
next
  assume n: "\<not> system_slot_mounted e"
  then have "fst (mount_system e) \<noteq> None" by (simp add: mount_system_None)
  then show "fst (mount_system e) = Some (- 1)"
    using mount_system_Some [of e] by (cases "fst (mount_system e)") auto
  from n show "open_mounts (snd (mount_system e)) = []"
    by (simp add: open_mounts_def foldl_mount_system)
  from n show "fst (factory_reset e) = - 1" by (simp add: factory_reset_not_mounted)
  from n show "open_mounts (snd (factory_reset e)) = []"
    by (simp add: open_mounts_factory_reset fallback_early_return_def)
  from n show "snd (factory_reset e) = DropCaches # activate_dynparts e @ snd (mount_system e)"
    by (simp add: factory_reset_not_mounted)
qed

text \<open>
  Both slot devices exist: the run mounts slot A and nothing else on \<^verbatim>\<open>/system_mnt\<close>. Only
  slot B exists: the run mounts slot B. Neither exists: the run makes no mount call and
  returns -1. Slot A exists and its mount fails: the run returns -1 right there and slot B
  is not tried.
\<close>

theorem topology_resolution_witness:
  "stat_system_a env_all_good \<and> stat_system_b env_all_good \<and>
   filter (is_mount_on ''/system_mnt'') (snd (factory_reset env_all_good)) =
     [Mount ''/dev/mapper/dynpart-system_a'' ''/system_mnt'' 0] \<and>
   snd (mount_system env_all_good) =
     [Mkdir ''/system_mnt'', Mount ''/dev/mapper/dynpart-system_a'' ''/system_mnt'' 0] \<and>
   open_mounts (snd (mount_system env_all_good)) = [''/system_mnt''] \<and>
   filter (is_mount_on ''/system_mnt'')
       (snd (factory_reset (env_all_good\<lparr>stat_system_a := False\<rparr>))) =
     [Mount ''/dev/mapper/dynpart-system_b'' ''/system_mnt'' 0] \<and>
   snd (mount_system (env_all_good\<lparr>stat_system_a := False\<rparr>)) =
     [Mkdir ''/system_mnt'', Mount ''/dev/mapper/dynpart-system_b'' ''/system_mnt'' 0] \<and>
   factory_reset (env_all_good\<lparr>stat_system_a := False, stat_system_b := False\<rparr>) =
     (- 1, [DropCaches, System dmsetup_cmd, Mkdir ''/system_mnt'']) \<and>
   \<not> system_slot_mounted (env_all_good\<lparr>mount_system_a := - 1\<rparr>) \<and>
   factory_reset (env_all_good\<lparr>mount_system_a := - 1\<rparr>) =
     (- 1, [DropCaches, System dmsetup_cmd, Mkdir ''/system_mnt'',
            Mount ''/dev/mapper/dynpart-system_a'' ''/system_mnt'' (- 1)])"
proof -
  let ?b = "env_all_good\<lparr>stat_system_a := False\<rparr>"
  let ?n = "env_all_good\<lparr>stat_system_a := False, stat_system_b := False\<rparr>"
  let ?f = "env_all_good\<lparr>mount_system_a := - 1\<rparr>"
  have a: "stat_system_a env_all_good" and b: "stat_system_b env_all_good"
    and r: "mount_system_a env_all_good = 0"
    by (simp_all add: env_defs)
  have m: "system_slot_mounted env_all_good" by (simp add: vocabulary_defs env_defs)
  have hb: "\<not> stat_system_a ?b \<and> stat_system_b ?b" and rb: "mount_system_b ?b = 0"
    by (simp_all add: env_defs)
  have hn: "\<not> stat_system_a ?n \<and> \<not> stat_system_b ?n" by (simp add: env_defs)
  have nn: "\<not> system_slot_mounted ?n" by (simp add: vocabulary_defs env_defs)
  have n: "\<not> system_slot_mounted ?f" by (simp add: vocabulary_defs env_defs)
  have af: "stat_system_a ?f" and rf: "mount_system_a ?f = - 1" by (simp_all add: env_defs)
  have act: "activate_dynparts ?n = [System dmsetup_cmd]"
    "activate_dynparts ?f = [System dmsetup_cmd]"
    by (simp_all add: activate_dynparts_def env_defs snprintf_dmsetup_cmd)
  note t = topology_resolution [of env_all_good]
  from t a r have 0: "filter (is_mount_on ''/system_mnt'') (snd (factory_reset env_all_good)) =
     [Mount ''/dev/mapper/dynpart-system_a'' ''/system_mnt'' 0]"
    by simp
  from t a r have 1: "snd (mount_system env_all_good) =
     [Mkdir ''/system_mnt'', Mount ''/dev/mapper/dynpart-system_a'' ''/system_mnt'' 0]"
    by simp
  from t m have 2: "open_mounts (snd (mount_system env_all_good)) = [''/system_mnt'']"
    by blast
  note tb = topology_resolution [of ?b]
  from tb hb rb have 3: "filter (is_mount_on ''/system_mnt'') (snd (factory_reset ?b)) =
     [Mount ''/dev/mapper/dynpart-system_b'' ''/system_mnt'' 0]"
    by simp
  from tb hb rb have 4: "snd (mount_system ?b) =
     [Mkdir ''/system_mnt'', Mount ''/dev/mapper/dynpart-system_b'' ''/system_mnt'' 0]"
    by simp
  note tn = topology_resolution [of ?n]
  from tn hn have mn: "snd (mount_system ?n) = [Mkdir ''/system_mnt'']" by blast
  from tn nn have "fst (factory_reset ?n) = - 1"
    and "snd (factory_reset ?n) = DropCaches # activate_dynparts ?n @ snd (mount_system ?n)"
    by blast+
  with mn act have 5: "factory_reset ?n =
     (- 1, [DropCaches, System dmsetup_cmd, Mkdir ''/system_mnt''])"
    by (simp add: prod_eq_iff)
  note tf = topology_resolution [of ?f]
  from tf af rf have mf: "snd (mount_system ?f) =
     [Mkdir ''/system_mnt'', Mount ''/dev/mapper/dynpart-system_a'' ''/system_mnt'' (- 1)]"
    by simp
  from tf n have "fst (factory_reset ?f) = - 1"
    and "snd (factory_reset ?f) = DropCaches # activate_dynparts ?f @ snd (mount_system ?f)"
    by blast+
  with mf act have 6: "factory_reset ?f =
     (- 1, [DropCaches, System dmsetup_cmd, Mkdir ''/system_mnt'',
            Mount ''/dev/mapper/dynpart-system_a'' ''/system_mnt'' (- 1)])"
    by (simp add: prod_eq_iff)
  from a b 0 1 2 3 4 5 n 6 show ?thesis by blast
qed

subsection \<open>Commands of a run\<close>

lemma strstr_occurs: "strstr (pre @ n @ post) n \<noteq> None"
proof (induction pre)
  case Nil
  show ?case
  proof (cases "n @ post")
    case Nil
    then show ?thesis by simp
  next
    case (Cons c cs)
    have "take (length n) (n @ post) = n" by simp
    with Cons have "take (length n) (c # cs) = n" by simp
    with Cons show ?thesis by simp
  qed
next
  case (Cons a pre)
  then show ?case by simp
qed

lemma dmsetup_cmd_no_boot_write: "\<not> writes_boot_or_dtbo dmsetup_cmd"
  by (simp add: writes_boot_or_dtbo_def dmsetup_cmd_def)

lemma userdata_cmd_no_boot_write: "\<not> writes_boot_or_dtbo userdata_cmd"
  by (simp add: writes_boot_or_dtbo_def userdata_cmd_def)

lemma userdata_raw_cmd_no_boot_write: "\<not> writes_boot_or_dtbo userdata_raw_cmd"
  by (simp add: writes_boot_or_dtbo_def userdata_raw_cmd_def)

text \<open>The four \<^verbatim>\<open>dd\<close> commands of lines 754-862 are partition writes in this sense.\<close>

lemma dd_cmds_write_boot_or_dtbo:
  assumes "length s \<le> 2" "length f \<le> 255"
  shows "writes_boot_or_dtbo (dd_boot_system_cmd s)"
    and "writes_boot_or_dtbo (dd_dtbo_system_cmd s)"
    and "writes_boot_or_dtbo (dd_boot_rootfs_cmd f s)"
    and "writes_boot_or_dtbo (dd_dtbo_rootfs_cmd f s)"
proof -
  have "dd_boot_system_cmd s =
      ''dd if=/system_mnt/boot.img of='' @ ''/dev/disk/by-partlabel/boot'' @ (s @ '' bs=4M'')"
    using assms by (simp add: dd_boot_system_cmd_exact)
  then show "writes_boot_or_dtbo (dd_boot_system_cmd s)"
    unfolding writes_boot_or_dtbo_def using strstr_occurs by metis
  have "dd_dtbo_system_cmd s =
      ''dd if=/system_mnt/dtbo.img of='' @ ''/dev/disk/by-partlabel/dtbo'' @ (s @ '' bs=4M'')"
    using assms by (simp add: dd_dtbo_system_cmd_exact)
  then show "writes_boot_or_dtbo (dd_dtbo_system_cmd s)"
    unfolding writes_boot_or_dtbo_def using strstr_occurs by metis
  have \<open>dd_boot_rootfs_cmd f s =
      (''dd if="/rootfs_mnt/boot/'' @ f @ ''" of="'') @ ''/dev/disk/by-partlabel/boot'' @
      (s @ ''" bs=4M'')\<close>
    using assms by (simp add: dd_boot_rootfs_cmd_exact)
  then show "writes_boot_or_dtbo (dd_boot_rootfs_cmd f s)"
    unfolding writes_boot_or_dtbo_def using strstr_occurs by metis
  have \<open>dd_dtbo_rootfs_cmd f s =
      (''dd if="/rootfs_mnt/boot/'' @ f @ ''" of="'') @ ''/dev/disk/by-partlabel/dtbo'' @
      (s @ ''" bs=4M'')\<close>
    using assms by (simp add: dd_dtbo_rootfs_cmd_exact)
  then show "writes_boot_or_dtbo (dd_dtbo_rootfs_cmd f s)"
    unfolding writes_boot_or_dtbo_def using strstr_occurs by metis
qed

lemma System_in_activate:
  "System c \<in> set (activate_dynparts e) \<longleftrightarrow>
   c = dmsetup_cmd \<and> stat_super e \<and> \<not> stat_system_a_pre e \<and> \<not> stat_system_b_pre e"
  by (auto simp: activate_dynparts_def snprintf_dmsetup_cmd)

lemma System_in_mount_system: "System c \<notin> set (snd (mount_system e))"
  by (simp add: mount_system_def)

lemma System_in_write_userdata:
  "System c \<in> set (snd (write_userdata e)) \<Longrightarrow> c = userdata_cmd \<or> c = userdata_raw_cmd"
  by (auto simp: write_userdata_def run_userdata_cmd_def snprintf_userdata_cmd
      snprintf_userdata_raw_cmd split: if_splits)

lemma System_in_flash_from_system:
  "System c \<in> set (flash_from_system e s) \<Longrightarrow>
   c = dd_boot_system_cmd s \<or> c = dd_dtbo_system_cmd s"
  by (auto simp: flash_from_system_def split: if_splits)

lemma System_in_rootfs_fallback:
  "System c \<in> set (snd (rootfs_fallback e s)) \<Longrightarrow>
   (\<exists>f. c = dd_boot_rootfs_cmd f s) \<or> (\<exists>f. c = dd_dtbo_rootfs_cmd f s)"
  by (auto simp: rootfs_fallback_def flash_from_rootfs_def Let_def split: if_splits)

subsection \<open>Userdata failure\<close>

text \<open>
  C5. When neither \<^verbatim>\<open>userdata.img.tar.gz\<close> nor \<^verbatim>\<open>userdata-raw.img.tar.gz\<close> is on the
  system slot, or the extract-and-write command returns nonzero, \<^verbatim>\<open>factory_reset\<close>
  returns -1 and no command of the run names the boot or the dtbo partition.
\<close>

theorem userdata_failure_is_fatal:
  assumes "(\<not> stat_userdata_img e \<and> \<not> stat_userdata_raw_img e) \<or> system_userdata e \<noteq> 0"
  shows "fst (factory_reset e) = - 1 \<and>
         (\<forall>cmd. System cmd \<in> set (snd (factory_reset e)) \<longrightarrow> \<not> writes_boot_or_dtbo cmd)"
proof -
  from assms have nw: "\<not> userdata_written e" by (auto simp: userdata_written_def)
  have ret: "fst (factory_reset e) = - 1"
  proof (cases "system_slot_mounted e")
    case False
    then show ?thesis by (simp add: factory_reset_not_mounted)
  next
    case True
    with nw show ?thesis by (simp add: factory_reset_not_written)
  qed
  have cmds: "c = dmsetup_cmd \<or> c = userdata_cmd \<or> c = userdata_raw_cmd"
    if c: "System c \<in> set (snd (factory_reset e))" for c
  proof (cases "system_slot_mounted e")
    case False
    with c show ?thesis
      by (auto simp: factory_reset_not_mounted System_in_activate System_in_mount_system)
  next
    case True
    with nw c show ?thesis
      by (auto simp: factory_reset_not_written System_in_activate System_in_mount_system
          dest: System_in_write_userdata)
  qed
  show ?thesis
  proof (intro conjI allI impI)
    show "fst (factory_reset e) = - 1" using ret by simp
  next
    fix cmd assume "System cmd \<in> set (snd (factory_reset e))"
    then have "cmd = dmsetup_cmd \<or> cmd = userdata_cmd \<or> cmd = userdata_raw_cmd"
      using cmds by simp
    then show "\<not> writes_boot_or_dtbo cmd"
      using dmsetup_cmd_no_boot_write userdata_cmd_no_boot_write userdata_raw_cmd_no_boot_write
      by blast
  qed
qed

text \<open>Scenario: the system slot is mounted and carries no userdata archive.\<close>

theorem userdata_failure_is_fatal_witness:
  "system_slot_mounted env_no_userdata \<and>
   \<not> stat_userdata_img env_no_userdata \<and> \<not> stat_userdata_raw_img env_no_userdata \<and>
   fst (factory_reset env_no_userdata) = - 1 \<and>
   System dmsetup_cmd \<in> set (snd (factory_reset env_no_userdata)) \<and>
   \<not> writes_boot_or_dtbo dmsetup_cmd"
proof -
  have m: "system_slot_mounted env_no_userdata" by (simp add: vocabulary_defs env_defs)
  have h: "\<not> stat_userdata_img env_no_userdata \<and> \<not> stat_userdata_raw_img env_no_userdata"
    by (simp add: env_defs)
  then have "(\<not> stat_userdata_img env_no_userdata \<and> \<not> stat_userdata_raw_img env_no_userdata)
      \<or> system_userdata env_no_userdata \<noteq> 0" by simp
  note t = userdata_failure_is_fatal [OF this]
  have c: "System dmsetup_cmd \<in> set (snd (factory_reset env_no_userdata))"
    by (simp add: run_no_userdata)
  from t c have "\<not> writes_boot_or_dtbo dmsetup_cmd" by blast
  with t m h c show ?thesis by blast
qed

subsection \<open>Dynamic-partition activation\<close>

lemma dmsetup_in_factory_reset:
  "System dmsetup_cmd \<in> set (snd (factory_reset e)) \<longleftrightarrow>
   System dmsetup_cmd \<in> set (activate_dynparts e)"
proof -
  have w: "System dmsetup_cmd \<notin> set (snd (write_userdata e))"
    using System_in_write_userdata [of dmsetup_cmd e] userdata_cmds_neq_dmsetup by metis
  have f: "System dmsetup_cmd \<notin> set (flash_from_system e s)" for s
    using System_in_flash_from_system [of dmsetup_cmd e s] dd_cmds_neq_dmsetup by metis
  have r: "System dmsetup_cmd \<notin> set (snd (rootfs_fallback e s))" for s
    using System_in_rootfs_fallback [of dmsetup_cmd e s] dd_cmds_neq_dmsetup by metis
  show ?thesis
  proof (cases "system_slot_mounted e")
    case False
    then show ?thesis by (simp add: factory_reset_not_mounted System_in_mount_system)
  next
    case m: True
    show ?thesis
    proof (cases "userdata_written e")
      case False
      with m w show ?thesis by (simp add: factory_reset_not_written System_in_mount_system)
    next
      case True
      with m w f r show ?thesis
        by (simp add: factory_reset_written Let_def System_in_mount_system)
    qed
  qed
qed

lemma factory_reset_ignores_dmsetup_status:
  "factory_reset (e\<lparr>system_dmsetup := r\<rparr>) = factory_reset e"
proof -
  have a: "activate_dynparts (e\<lparr>system_dmsetup := r\<rparr>) = activate_dynparts e"
    by (simp add: activate_dynparts_def)
  have m: "mount_system (e\<lparr>system_dmsetup := r\<rparr>) = mount_system e"
    by (simp add: mount_system_def)
  have w: "write_userdata (e\<lparr>system_dmsetup := r\<rparr>) = write_userdata e"
    by (simp add: write_userdata_def run_userdata_cmd_def)
  have f: "flash_from_system (e\<lparr>system_dmsetup := r\<rparr>) s = flash_from_system e s" for s
    by (simp add: flash_from_system_def)
  have b: "rootfs_fallback (e\<lparr>system_dmsetup := r\<rparr>) s = rootfs_fallback e s" for s
    by (simp add: rootfs_fallback_def flash_from_rootfs_def)
  have c: "cmdline (e\<lparr>system_dmsetup := r\<rparr>) = cmdline e"
    "malloc_ok (e\<lparr>system_dmsetup := r\<rparr>) = malloc_ok e"
    by simp_all
  show ?thesis unfolding factory_reset_def a m w f b c ..
qed

text \<open>
  C8. The run hands the activation command
  \<^verbatim>\<open>dmsetup create --concise "$(parse-android-dynparts /dev/disk/by-partlabel/super)"\<close>
  to \<^verbatim>\<open>system\<close> exactly when \<^verbatim>\<open>super\<close> exists and neither \<^verbatim>\<open>dynpart-system_a\<close> nor
  \<^verbatim>\<open>dynpart-system_b\<close> does (lines 703-707); its exit status changes nothing in the run.
\<close>

theorem activation_tool_invoked_iff:
  "(System dmsetup_cmd \<in> set (snd (factory_reset e)) \<longleftrightarrow>
      stat_super e \<and> \<not> stat_system_a_pre e \<and> \<not> stat_system_b_pre e) \<and>
   factory_reset (e\<lparr>system_dmsetup := r\<rparr>) = factory_reset e"
  by (simp add: dmsetup_in_factory_reset System_in_activate factory_reset_ignores_dmsetup_status)

text \<open>
  A device with \<^verbatim>\<open>super\<close> and no logical slot device runs the tool; the scenario without
  \<^verbatim>\<open>super\<close> and with \<^verbatim>\<open>dynpart-system_a\<close> present does not; a failing tool changes nothing.
\<close>

theorem activation_tool_invoked_iff_witness:
  "System dmsetup_cmd \<in> set (snd (factory_reset env_all_good)) \<and>
   System dmsetup_cmd \<notin> set (snd (factory_reset env_no_super)) \<and>
   factory_reset (env_all_good\<lparr>system_dmsetup := 1\<rparr>) = factory_reset env_all_good"
proof -
  have g: "stat_super env_all_good \<and> \<not> stat_system_a_pre env_all_good \<and>
      \<not> stat_system_b_pre env_all_good" by (simp add: env_defs)
  have n: "\<not> stat_super env_no_super" by (simp add: env_defs)
  from activation_tool_invoked_iff [of env_all_good 1] g
  have 1: "System dmsetup_cmd \<in> set (snd (factory_reset env_all_good))"
    and 3: "factory_reset (env_all_good\<lparr>system_dmsetup := 1\<rparr>) = factory_reset env_all_good"
    by blast+
  from activation_tool_invoked_iff [of env_no_super 0] n
  have 2: "System dmsetup_cmd \<notin> set (snd (factory_reset env_no_super))" by blast
  from 1 2 3 show ?thesis by blast
qed

subsection \<open>The rootfs fallback\<close>

lemma find_image_boot:
  "find_image ''boot.img'' ds =
     (case find (\<lambda>d. take 8 (c_str d) = ''boot.img'') ds of
        None \<Rightarrow> [] | Some d \<Rightarrow> take 255 (c_str d))"
proof -
  have l: "length ''boot.img'' = 8" by simp
  show ?thesis using find_image_find [of "''boot.img''" ds] unfolding l .
qed

lemma find_image_dtbo:
  "find_image ''dtbo.img'' ds =
     (case find (\<lambda>d. take 8 (c_str d) = ''dtbo.img'') ds of
        None \<Rightarrow> [] | Some d \<Rightarrow> take 255 (c_str d))"
proof -
  have l: "length ''dtbo.img'' = 8" by simp
  show ?thesis using find_image_find [of "''dtbo.img''" ds] unfolding l .
qed

lemma found_image_nonempty:
  assumes "find (\<lambda>d. take 8 (c_str d) = pre) ds = Some d" and "length pre = 8"
  shows "take 255 (c_str d) \<noteq> []"
proof -
  from assms(1) have "take 8 (c_str d) = pre" by (auto simp: find_Some_iff)
  with assms(2) have "c_str d \<noteq> []" by auto
  then show ?thesis by (cases "c_str d") simp_all
qed

lemma flash_from_rootfs_exact:
  assumes "length s \<le> 2"
  shows \<open>flash_from_rootfs e s =
     (case find (\<lambda>d. take 8 (c_str d) = ''boot.img'') (readdir_boot e) of
        None \<Rightarrow> []
      | Some d \<Rightarrow>
          [System (''dd if="/rootfs_mnt/boot/'' @ take 255 (c_str d) @
                   ''" of="/dev/disk/by-partlabel/boot'' @ s @ ''" bs=4M'')]) @
     (case find (\<lambda>d. take 8 (c_str d) = ''dtbo.img'') (readdir_rewound e) of
        None \<Rightarrow> []
      | Some d \<Rightarrow>
          [System (''dd if="/rootfs_mnt/boot/'' @ take 255 (c_str d) @
                   ''" of="/dev/disk/by-partlabel/dtbo'' @ s @ ''" bs=4M'')])\<close>
proof -
  have b: \<open>(if find_image ''boot.img'' (readdir_boot e) \<noteq> []
            then [System (dd_boot_rootfs_cmd (find_image ''boot.img'' (readdir_boot e)) s)]
            else []) =
     (case find (\<lambda>d. take 8 (c_str d) = ''boot.img'') (readdir_boot e) of
        None \<Rightarrow> []
      | Some d \<Rightarrow>
          [System (''dd if="/rootfs_mnt/boot/'' @ take 255 (c_str d) @
                   ''" of="/dev/disk/by-partlabel/boot'' @ s @ ''" bs=4M'')])\<close>
  proof (cases "find (\<lambda>d. take 8 (c_str d) = ''boot.img'') (readdir_boot e)")
    case None
    then show ?thesis by (simp add: find_image_boot)
  next
    case (Some d)
    then have "take 255 (c_str d) \<noteq> []" by (rule found_image_nonempty) simp
    with Some assms show ?thesis
      by (simp add: find_image_boot dd_boot_rootfs_cmd_exact)
  qed
  have d: \<open>(if find_image ''dtbo.img'' (readdir_rewound e) \<noteq> []
            then [System (dd_dtbo_rootfs_cmd (find_image ''dtbo.img'' (readdir_rewound e)) s)]
            else []) =
     (case find (\<lambda>d. take 8 (c_str d) = ''dtbo.img'') (readdir_rewound e) of
        None \<Rightarrow> []
      | Some d \<Rightarrow>
          [System (''dd if="/rootfs_mnt/boot/'' @ take 255 (c_str d) @
                   ''" of="/dev/disk/by-partlabel/dtbo'' @ s @ ''" bs=4M'')])\<close>
  proof (cases "find (\<lambda>d. take 8 (c_str d) = ''dtbo.img'') (readdir_rewound e)")
    case None
    then show ?thesis by (simp add: find_image_dtbo)
  next
    case (Some d)
    then have "take 255 (c_str d) \<noteq> []" by (rule found_image_nonempty) simp
    with Some assms show ?thesis
      by (simp add: find_image_dtbo dd_dtbo_rootfs_cmd_exact)
  qed
  show ?thesis unfolding flash_from_rootfs_def Let_def b d ..
qed

lemma rootfs_fallback_flashing:
  assumes "fallback_entered e" "mount_rootfs e = 0" "opendir_boot e"
  shows "rootfs_fallback e s =
     (None,
      [Mkdir ''/rootfs_mnt'',
       Mount ''/dev/mapper/droidian-droidian--rootfs'' ''/rootfs_mnt'' 0] @
      flash_from_rootfs e s @ [Umount ''/rootfs_mnt''])"
  using assms by (auto simp: rootfs_fallback_def fallback_entered_def)

lemma rootfs_fallback_unused:
  "stat_boot_img_again e \<Longrightarrow> stat_dtbo_img_again e \<Longrightarrow> rootfs_fallback e s = (None, [])"
  by (simp add: rootfs_fallback_def)

lemma factory_reset_without_fallback:
  assumes "system_slot_mounted e" and "userdata_written e"
    and "stat_boot_img_again e" and "stat_dtbo_img_again e"
  shows "factory_reset e =
     (0, DropCaches # activate_dynparts e @ snd (mount_system e) @ snd (write_userdata e) @
         flash_from_system e (slot_suffix_or_default (cmdline e) (malloc_ok e)) @
         [Umount ''/system_mnt'', DropCaches])"
  using assms by (simp add: factory_reset_written Let_def rootfs_fallback_unused)

text \<open>
  C6, as the code has it. When \<^verbatim>\<open>boot.img\<close> or \<^verbatim>\<open>dtbo.img\<close> is absent from the mounted
  system slot (lines 786-787) and the rootfs device exists, is mounted and its boot
  directory is opened, the fallback searches that directory for both images: the first
  enumerated name that begins with \<^verbatim>\<open>boot.img\<close> and, after \<^verbatim>\<open>rewinddir\<close>, the first that
  begins with \<^verbatim>\<open>dtbo.img\<close>. Each match found is handed to \<^verbatim>\<open>dd\<close> for the boot or dtbo
  partition of the slot suffix, after whatever was flashed from the system slot and whether
  or not that image was already flashed from there. When both images are on the system
  slot the fallback does nothing: the run goes from the system-slot flashes straight to
  the final unmount.
\<close>

theorem rootfs_fallback_flashes_matches:
  assumes "system_slot_mounted e" and "userdata_written e" and "fallback_entered e"
    and "mount_rootfs e = 0" and "opendir_boot e"
    and "s = slot_suffix_or_default (cmdline e) (malloc_ok e)"
  shows \<open>factory_reset e =
     (0, [DropCaches] @ activate_dynparts e @ snd (mount_system e) @ snd (write_userdata e) @
         (if stat_boot_img e
          then [System (''dd if=/system_mnt/boot.img of=/dev/disk/by-partlabel/boot'' @ s @
                        '' bs=4M'')]
          else []) @
         (if stat_dtbo_img e
          then [System (''dd if=/system_mnt/dtbo.img of=/dev/disk/by-partlabel/dtbo'' @ s @
                        '' bs=4M'')]
          else []) @
         [Mkdir ''/rootfs_mnt'',
          Mount ''/dev/mapper/droidian-droidian--rootfs'' ''/rootfs_mnt'' 0] @
         (case find (\<lambda>d. take 8 (c_str d) = ''boot.img'') (readdir_boot e) of
            None \<Rightarrow> []
          | Some d \<Rightarrow>
              [System (''dd if="/rootfs_mnt/boot/'' @ take 255 (c_str d) @
                       ''" of="/dev/disk/by-partlabel/boot'' @ s @ ''" bs=4M'')]) @
         (case find (\<lambda>d. take 8 (c_str d) = ''dtbo.img'') (readdir_rewound e) of
            None \<Rightarrow> []
          | Some d \<Rightarrow>
              [System (''dd if="/rootfs_mnt/boot/'' @ take 255 (c_str d) @
                       ''" of="/dev/disk/by-partlabel/dtbo'' @ s @ ''" bs=4M'')]) @
         [Umount ''/rootfs_mnt'', Umount ''/system_mnt'', DropCaches]) \<and>
     (\<forall>e'. stat_boot_img_again e' \<and> stat_dtbo_img_again e' \<longrightarrow>
           rootfs_fallback e' s = (None, [])) \<and>
     (\<forall>e'. system_slot_mounted e' \<and> userdata_written e' \<and>
           stat_boot_img_again e' \<and> stat_dtbo_img_again e' \<longrightarrow>
           factory_reset e' =
             (0, DropCaches # activate_dynparts e' @ snd (mount_system e') @
                 snd (write_userdata e') @
                 flash_from_system e' (slot_suffix_or_default (cmdline e') (malloc_ok e')) @
                 [Umount ''/system_mnt'', DropCaches]))\<close>
proof -
  have l: "length s \<le> 2" using assms(6) by (simp add: length_slot_suffix)
  have sys: \<open>flash_from_system e s =
         (if stat_boot_img e
          then [System (''dd if=/system_mnt/boot.img of=/dev/disk/by-partlabel/boot'' @ s @
                        '' bs=4M'')]
          else []) @
         (if stat_dtbo_img e
          then [System (''dd if=/system_mnt/dtbo.img of=/dev/disk/by-partlabel/dtbo'' @ s @
                        '' bs=4M'')]
          else [])\<close>
    using l by (simp add: flash_from_system_def dd_boot_system_cmd_exact dd_dtbo_system_cmd_exact)
  have fb: "rootfs_fallback e s =
     (None,
      [Mkdir ''/rootfs_mnt'',
       Mount ''/dev/mapper/droidian-droidian--rootfs'' ''/rootfs_mnt'' 0] @
      flash_from_rootfs e s @ [Umount ''/rootfs_mnt''])"
    using assms(3-5) by (rule rootfs_fallback_flashing)
  have run: "factory_reset e =
     (0, [DropCaches] @ activate_dynparts e @ snd (mount_system e) @ snd (write_userdata e) @
         flash_from_system e s @
         ([Mkdir ''/rootfs_mnt'',
           Mount ''/dev/mapper/droidian-droidian--rootfs'' ''/rootfs_mnt'' 0] @
          flash_from_rootfs e s @ [Umount ''/rootfs_mnt'']) @
         [Umount ''/system_mnt'', DropCaches])"
    using assms(1,2) fb unfolding assms(6)
    by (simp add: factory_reset_written Let_def)
  have nofb: "\<forall>e'. system_slot_mounted e' \<and> userdata_written e' \<and>
           stat_boot_img_again e' \<and> stat_dtbo_img_again e' \<longrightarrow>
           factory_reset e' =
             (0, DropCaches # activate_dynparts e' @ snd (mount_system e') @
                 snd (write_userdata e') @
                 flash_from_system e' (slot_suffix_or_default (cmdline e') (malloc_ok e')) @
                 [Umount ''/system_mnt'', DropCaches])"
    using factory_reset_without_fallback by blast
  have unused: "\<forall>e'. stat_boot_img_again e' \<and> stat_dtbo_img_again e' \<longrightarrow>
           rootfs_fallback e' s = (None, [])"
    by (simp add: rootfs_fallback_unused)
  have first: \<open>factory_reset e =
     (0, [DropCaches] @ activate_dynparts e @ snd (mount_system e) @ snd (write_userdata e) @
         (if stat_boot_img e
          then [System (''dd if=/system_mnt/boot.img of=/dev/disk/by-partlabel/boot'' @ s @
                        '' bs=4M'')]
          else []) @
         (if stat_dtbo_img e
          then [System (''dd if=/system_mnt/dtbo.img of=/dev/disk/by-partlabel/dtbo'' @ s @
                        '' bs=4M'')]
          else []) @
         [Mkdir ''/rootfs_mnt'',
          Mount ''/dev/mapper/droidian-droidian--rootfs'' ''/rootfs_mnt'' 0] @
         (case find (\<lambda>d. take 8 (c_str d) = ''boot.img'') (readdir_boot e) of
            None \<Rightarrow> []
          | Some d \<Rightarrow>
              [System (''dd if="/rootfs_mnt/boot/'' @ take 255 (c_str d) @
                       ''" of="/dev/disk/by-partlabel/boot'' @ s @ ''" bs=4M'')]) @
         (case find (\<lambda>d. take 8 (c_str d) = ''dtbo.img'') (readdir_rewound e) of
            None \<Rightarrow> []
          | Some d \<Rightarrow>
              [System (''dd if="/rootfs_mnt/boot/'' @ take 255 (c_str d) @
                       ''" of="/dev/disk/by-partlabel/dtbo'' @ s @ ''" bs=4M'')]) @
         [Umount ''/rootfs_mnt'', Umount ''/system_mnt'', DropCaches])\<close>
    unfolding run sys flash_from_rootfs_exact [OF l] by simp
  from first unused nofb show ?thesis by blast
qed

text \<open>
  The claim as written fails when only \<^verbatim>\<open>dtbo.img\<close> is missing from the system slot:
  \<^verbatim>\<open>boot.img\<close> is flashed from \<^verbatim>\<open>/system_mnt\<close>, the fallback then searches for a boot
  image as well, finds \<^verbatim>\<open>boot.img-5.10\<close> and flashes the boot partition a second time.
\<close>

theorem fallback_reflashes_boot_counterexample:
  \<open>stat_boot_img env_dtbo_missing \<and> stat_boot_img_again env_dtbo_missing \<and>
   snd (factory_reset env_dtbo_missing) =
     [DropCaches, System dmsetup_cmd, Mkdir ''/system_mnt'',
      Mount ''/dev/mapper/dynpart-system_a'' ''/system_mnt'' 0,
      System userdata_cmd,
      System ''dd if=/system_mnt/boot.img of=/dev/disk/by-partlabel/boot_a bs=4M'',
      Mkdir ''/rootfs_mnt'',
      Mount ''/dev/mapper/droidian-droidian--rootfs'' ''/rootfs_mnt'' 0,
      System ''dd if="/rootfs_mnt/boot/boot.img-5.10" of="/dev/disk/by-partlabel/boot_a" bs=4M'',
      Umount ''/rootfs_mnt'', Umount ''/system_mnt'', DropCaches]\<close>
proof (intro conjI)
  show "stat_boot_img env_dtbo_missing" by (simp add: env_defs)
  show "stat_boot_img_again env_dtbo_missing" by (simp add: env_defs)
  show \<open>snd (factory_reset env_dtbo_missing) =
     [DropCaches, System dmsetup_cmd, Mkdir ''/system_mnt'',
      Mount ''/dev/mapper/dynpart-system_a'' ''/system_mnt'' 0,
      System userdata_cmd,
      System ''dd if=/system_mnt/boot.img of=/dev/disk/by-partlabel/boot_a bs=4M'',
      Mkdir ''/rootfs_mnt'',
      Mount ''/dev/mapper/droidian-droidian--rootfs'' ''/rootfs_mnt'' 0,
      System ''dd if="/rootfs_mnt/boot/boot.img-5.10" of="/dev/disk/by-partlabel/boot_a" bs=4M'',
      Umount ''/rootfs_mnt'', Umount ''/system_mnt'', DropCaches]\<close>
    by (simp add: run_dtbo_missing)
qed

text \<open>
  Scenario: \<^verbatim>\<open>boot.img\<close> absent from the system slot, \<^verbatim>\<open>boot.img-5.10\<close> in the boot
  directory of the rootfs volume, slot suffix \<open>_a\<close>. With both images on the system slot
  the fallback adds nothing to the run.
\<close>

theorem rootfs_fallback_flashes_matches_witness:
  \<open>system_slot_mounted env_boot_missing \<and> userdata_written env_boot_missing \<and>
   fallback_entered env_boot_missing \<and> mount_rootfs env_boot_missing = 0 \<and>
   opendir_boot env_boot_missing \<and>
   factory_reset env_boot_missing =
     (0, [DropCaches, System dmsetup_cmd, Mkdir ''/system_mnt'',
          Mount ''/dev/mapper/dynpart-system_a'' ''/system_mnt'' 0,
          System userdata_cmd,
          System ''dd if=/system_mnt/dtbo.img of=/dev/disk/by-partlabel/dtbo_a bs=4M'',
          Mkdir ''/rootfs_mnt'',
          Mount ''/dev/mapper/droidian-droidian--rootfs'' ''/rootfs_mnt'' 0,
          System ''dd if="/rootfs_mnt/boot/boot.img-5.10" of="/dev/disk/by-partlabel/boot_a" bs=4M'',
          Umount ''/rootfs_mnt'', Umount ''/system_mnt'', DropCaches]) \<and>
   stat_boot_img_again env_all_good \<and> stat_dtbo_img_again env_all_good \<and>
   rootfs_fallback env_all_good ''_a'' = (None, []) \<and>
   system_slot_mounted env_all_good \<and> userdata_written env_all_good \<and>
   factory_reset env_all_good =
     (0, [DropCaches, System dmsetup_cmd, Mkdir ''/system_mnt'',
          Mount ''/dev/mapper/dynpart-system_a'' ''/system_mnt'' 0,
          System userdata_cmd,
          System ''dd if=/system_mnt/boot.img of=/dev/disk/by-partlabel/boot_a bs=4M'',
          System ''dd if=/system_mnt/dtbo.img of=/dev/disk/by-partlabel/dtbo_a bs=4M'',
          Umount ''/system_mnt'', DropCaches])\<close>
proof -
  have m: "system_slot_mounted env_boot_missing" by (simp add: vocabulary_defs env_defs)
  have w: "userdata_written env_boot_missing" by (simp add: vocabulary_defs env_defs)
  have f: "fallback_entered env_boot_missing" by (simp add: vocabulary_defs env_defs)
  have r: "mount_rootfs env_boot_missing = 0" by (simp add: env_defs)
  have d: "opendir_boot env_boot_missing" by (simp add: env_defs)
  have s: "''_a'' = slot_suffix_or_default (cmdline env_boot_missing) (malloc_ok env_boot_missing)"
    by (simp add: env_defs)
  have fields: "stat_boot_img env_boot_missing = False" "stat_dtbo_img env_boot_missing = True"
    "readdir_boot env_boot_missing = demo_boot_dir"
    "readdir_rewound env_boot_missing = demo_boot_dir"
    by (simp_all add: env_defs)
  have phases: "activate_dynparts env_boot_missing = [System dmsetup_cmd]"
    "snd (mount_system env_boot_missing) =
       [Mkdir ''/system_mnt'', Mount ''/dev/mapper/dynpart-system_a'' ''/system_mnt'' 0]"
    "snd (write_userdata env_boot_missing) = [System userdata_cmd]"
    by (simp_all add: phase_defs env_defs snprintf_dmsetup_cmd snprintf_userdata_cmd)
  have dir: "find (\<lambda>d. take 8 (c_str d) = ''boot.img'') demo_boot_dir = Some ''boot.img-5.10''"
    "find (\<lambda>d. take 8 (c_str d) = ''dtbo.img'') demo_boot_dir = None"
    "c_str ''boot.img-5.10'' = ''boot.img-5.10''"
    by (simp_all add: demo_boot_dir_def c_str_def NUL_def)
  note t = rootfs_fallback_flashes_matches [OF m w f r d s, THEN conjunct1]
  from t have \<open>factory_reset env_boot_missing =
     (0, [DropCaches, System dmsetup_cmd, Mkdir ''/system_mnt'',
          Mount ''/dev/mapper/dynpart-system_a'' ''/system_mnt'' 0,
          System userdata_cmd,
          System ''dd if=/system_mnt/dtbo.img of=/dev/disk/by-partlabel/dtbo_a bs=4M'',
          Mkdir ''/rootfs_mnt'',
          Mount ''/dev/mapper/droidian-droidian--rootfs'' ''/rootfs_mnt'' 0,
          System ''dd if="/rootfs_mnt/boot/boot.img-5.10" of="/dev/disk/by-partlabel/boot_a" bs=4M'',
          Umount ''/rootfs_mnt'', Umount ''/system_mnt'', DropCaches])\<close>
    unfolding fields phases dir by (simp add: dir(3))
  moreover have both: "stat_boot_img_again env_all_good \<and> stat_dtbo_img_again env_all_good"
    by (simp add: env_defs)
  moreover from both have "rootfs_fallback env_all_good ''_a'' = (None, [])"
    by (rule rootfs_fallback_flashes_matches [OF m w f r d s, THEN conjunct2,
          THEN conjunct1, rule_format])
  moreover have mg: "system_slot_mounted env_all_good" and wg: "userdata_written env_all_good"
    by (simp_all add: vocabulary_defs env_defs)
  moreover have \<open>factory_reset env_all_good =
     (0, [DropCaches, System dmsetup_cmd, Mkdir ''/system_mnt'',
          Mount ''/dev/mapper/dynpart-system_a'' ''/system_mnt'' 0,
          System userdata_cmd,
          System ''dd if=/system_mnt/boot.img of=/dev/disk/by-partlabel/boot_a bs=4M'',
          System ''dd if=/system_mnt/dtbo.img of=/dev/disk/by-partlabel/dtbo_a bs=4M'',
          Umount ''/system_mnt'', DropCaches])\<close>
  proof -
    have h: "system_slot_mounted env_all_good \<and> userdata_written env_all_good \<and>
        stat_boot_img_again env_all_good \<and> stat_dtbo_img_again env_all_good"
      using mg wg both by simp
    have g: "activate_dynparts env_all_good = [System dmsetup_cmd]"
      "snd (mount_system env_all_good) =
         [Mkdir ''/system_mnt'', Mount ''/dev/mapper/dynpart-system_a'' ''/system_mnt'' 0]"
      "snd (write_userdata env_all_good) = [System userdata_cmd]"
      "flash_from_system env_all_good
         (slot_suffix_or_default (cmdline env_all_good) (malloc_ok env_all_good)) =
         [System ''dd if=/system_mnt/boot.img of=/dev/disk/by-partlabel/boot_a bs=4M'',
          System ''dd if=/system_mnt/dtbo.img of=/dev/disk/by-partlabel/dtbo_a bs=4M'']"
      by (simp_all add: phase_defs env_defs snprintf_dmsetup_cmd snprintf_userdata_cmd
          dd_boot_system_cmd_exact dd_dtbo_system_cmd_exact)
    note u = rootfs_fallback_flashes_matches [OF m w f r d s, THEN conjunct2, THEN conjunct2,
        rule_format, OF h]
    show ?thesis unfolding u g by simp
  qed
  ultimately show ?thesis using m w f r d by blast
qed

subsection \<open>The entry point and the encryption check\<close>

lemma run_all_good:
  "factory_reset env_all_good =
     (0, [DropCaches, System dmsetup_cmd, Mkdir ''/system_mnt'',
          Mount ''/dev/mapper/dynpart-system_a'' ''/system_mnt'' 0,
          System userdata_cmd,
          System ''dd if=/system_mnt/boot.img of=/dev/disk/by-partlabel/boot_a bs=4M'',
          System ''dd if=/system_mnt/dtbo.img of=/dev/disk/by-partlabel/dtbo_a bs=4M'',
          Umount ''/system_mnt'', DropCaches])"
  by (simp add: factory_reset_def phase_defs env_defs snprintf_userdata_cmd snprintf_dmsetup_cmd
      dd_boot_system_cmd_exact dd_dtbo_system_cmd_exact)

text \<open>
  C9, as the code has it. \<^verbatim>\<open>perform_factory_reset\<close> compares the result of the header
  inspection with -1 and with 1 only. On -1 (the inspection failed) it shows the failure
  box and does not call \<^verbatim>\<open>factory_reset\<close>; on 1 (a locked header) it opens the password
  screen through \<^verbatim>\<open>decrypt\<close> and does not call \<^verbatim>\<open>factory_reset\<close>; on every other result,
  0 among them, it calls \<^verbatim>\<open>factory_reset\<close> and shows the box for what that returned.
\<close>

theorem perform_factory_reset_outcomes:
  "perform_factory_reset (- 1) e =
     ([CloseResettingMbox, Msgbox ''Failed to factory reset'' [''OK''],
       OnValueChanged_close_mbox], None) \<and>
   perform_factory_reset 1 e = ([Decrypt, CloseResettingMbox], None) \<and>
   (\<forall>luks. luks \<noteq> - 1 \<and> luks \<noteq> 1 \<longrightarrow>
      perform_factory_reset luks e =
        (CloseResettingMbox # result_mbox (fst (factory_reset e)), Some (factory_reset e))) \<and>
   (\<forall>luks. snd (perform_factory_reset luks e) \<noteq> None \<longleftrightarrow> luks \<noteq> - 1 \<and> luks \<noteq> 1)"
  by (simp add: perform_factory_reset_def Let_def)

text \<open>
  The claim as written fails on a result other than -1, 0 and 1: with the result 2 the
  reset runs, as it does with 0.
\<close>

theorem other_result_proceeds_counterexample:
  "perform_factory_reset 2 env_all_good =
     ([CloseResettingMbox, Msgbox ''Successfully reset to factory settings'' [''OK''],
       OnValueChanged_close_mbox],
      Some (0, [DropCaches, System dmsetup_cmd, Mkdir ''/system_mnt'',
                Mount ''/dev/mapper/dynpart-system_a'' ''/system_mnt'' 0,
                System userdata_cmd,
                System ''dd if=/system_mnt/boot.img of=/dev/disk/by-partlabel/boot_a bs=4M'',
                System ''dd if=/system_mnt/dtbo.img of=/dev/disk/by-partlabel/dtbo_a bs=4M'',
                Umount ''/system_mnt'', DropCaches]))"
  by (simp add: perform_factory_reset_def Let_def run_all_good result_mbox_def)

text \<open>The results -1, 1, 0 and 2 on a device where the reset itself succeeds.\<close>

theorem perform_factory_reset_outcomes_witness:
  "snd (perform_factory_reset (- 1) env_all_good) = None \<and>
   perform_factory_reset 1 env_all_good = ([Decrypt, CloseResettingMbox], None) \<and>
   fst (perform_factory_reset 0 env_all_good) =
     [CloseResettingMbox, Msgbox ''Successfully reset to factory settings'' [''OK''],
      OnValueChanged_close_mbox] \<and>
   snd (perform_factory_reset 0 env_all_good) = Some (factory_reset env_all_good) \<and>
   (2::int) \<noteq> - 1 \<and> (2::int) \<noteq> 1 \<and>
   snd (perform_factory_reset 2 env_all_good) = Some (factory_reset env_all_good)"
proof -
  note t = perform_factory_reset_outcomes [of env_all_good]
  from t have 1: "snd (perform_factory_reset (- 1) env_all_good) = None" by simp
  from t have 2: "perform_factory_reset 1 env_all_good = ([Decrypt, CloseResettingMbox], None)"
    by blast
  have z: "(0::int) \<noteq> - 1 \<and> (0::int) \<noteq> 1" and w: "(2::int) \<noteq> - 1 \<and> (2::int) \<noteq> 1"
    by simp_all
  from t z have 3: "perform_factory_reset 0 env_all_good =
     (CloseResettingMbox # result_mbox (fst (factory_reset env_all_good)),
      Some (factory_reset env_all_good))" by blast
  from t w have 4: "perform_factory_reset 2 env_all_good =
     (CloseResettingMbox # result_mbox (fst (factory_reset env_all_good)),
      Some (factory_reset env_all_good))" by blast
  from 3 have 5: "fst (perform_factory_reset 0 env_all_good) =
     [CloseResettingMbox, Msgbox ''Successfully reset to factory settings'' [''OK''],
      OnValueChanged_close_mbox]"
    by (simp add: run_all_good result_mbox_def)
  from 3 have 6: "snd (perform_factory_reset 0 env_all_good) = Some (factory_reset env_all_good)"
    by simp
  from 4 have 7: "snd (perform_factory_reset 2 env_all_good) = Some (factory_reset env_all_good)"
    by simp
  from 1 2 5 6 w 7 show ?thesis by blast
qed

subsection \<open>Password submissions\<close>

text \<open>
  C10. A call of \<^verbatim>\<open>check_password\<close> adds one to \<open>attempt_count\<close> exactly when the helper
  returns 2. A helper result other than \<open>EXIT_SUCCESS\<close> and 2 leaves the counter and the
  user interface as they were. A result of \<open>EXIT_SUCCESS\<close> shows the "Resetting device..."
  box and starts the timer for \<^verbatim>\<open>factory_reset_password\<close>, whatever the counter holds.
\<close>

theorem check_password_result_handling:
  "(helper password = 2 \<longrightarrow>
      attempt_count (check_password helper password g) = attempt_count g + 1) \<and>
   (helper password \<noteq> 2 \<longrightarrow>
      attempt_count (check_password helper password g) = attempt_count g) \<and>
   (helper password \<noteq> EXIT_SUCCESS \<and> helper password \<noteq> 2 \<longrightarrow>
      attempt_count (check_password helper password g) = attempt_count g \<and>
      ui (check_password helper password g) = ui g) \<and>
   (helper password = EXIT_SUCCESS \<longrightarrow>
      ui (check_password helper password g) =
        ui g @ [Msgbox ''Resetting device...'' [], StartTimer Factory_reset_password])"
  by (simp add: check_password_def Let_def EXIT_SUCCESS_def)

text \<open>
  The three kinds of helper result, on a gate whose counter already holds 7: a wrong
  password, a helper error and the correct password.
\<close>

theorem check_password_result_handling_witness:
  "demo_helper ''guess'' = 2 \<and>
   attempt_count (check_password demo_helper ''guess'' (gate_init\<lparr>attempt_count := 7\<rparr>)) = 8 \<and>
   demo_helper [] \<noteq> EXIT_SUCCESS \<and> demo_helper [] \<noteq> 2 \<and>
   attempt_count (check_password demo_helper [] (gate_init\<lparr>attempt_count := 7\<rparr>)) = 7 \<and>
   ui (check_password demo_helper [] (gate_init\<lparr>attempt_count := 7\<rparr>)) = [] \<and>
   demo_helper ''correct horse'' = EXIT_SUCCESS \<and>
   ui (check_password demo_helper ''correct horse'' (gate_init\<lparr>attempt_count := 7\<rparr>)) =
     [Msgbox ''Resetting device...'' [], StartTimer Factory_reset_password]"
proof -
  let ?g = "gate_init\<lparr>attempt_count := 7\<rparr>"
  have g: "attempt_count ?g = 7" "ui ?g = []" by (simp_all add: gate_init_def)
  have w: "demo_helper ''guess'' = 2" by (simp add: demo_helper_def)
  have e: "demo_helper [] \<noteq> EXIT_SUCCESS \<and> demo_helper [] \<noteq> 2"
    by (simp add: demo_helper_def EXIT_SUCCESS_def)
  have c: "demo_helper ''correct horse'' = EXIT_SUCCESS" by (simp add: demo_helper_def)
  from check_password_result_handling [of demo_helper "''guess''" ?g] w g
  have 1: "attempt_count (check_password demo_helper ''guess'' ?g) = 8" by simp
  from check_password_result_handling [of demo_helper "[]" ?g] e g
  have 2: "attempt_count (check_password demo_helper [] ?g) = 7 \<and>
      ui (check_password demo_helper [] ?g) = []" by simp
  from check_password_result_handling [of demo_helper "''correct horse''" ?g] c g
  have 3: "ui (check_password demo_helper ''correct horse'' ?g) =
     [Msgbox ''Resetting device...'' [], StartTimer Factory_reset_password]" by simp
  from w 1 e 2 c 3 show ?thesis by blast
qed

lemma attempt_count_check_password:
  "attempt_count (check_password helper p g) =
     attempt_count g + (if helper p = 2 then 1 else 0)"
  by (simp add: check_password_def Let_def EXIT_SUCCESS_def)

lemma notice_check_password:
  "lockout_notice \<in> set (ui (check_password helper p g)) \<longleftrightarrow>
   lockout_notice \<in> set (ui g) \<or> (helper p = 2 \<and> 3 \<le> attempt_count g + 1)"
  by (auto simp: check_password_def Let_def EXIT_SUCCESS_def lockout_notice_def)

lemma attempt_count_submissions:
  "attempt_count (submissions helper pws g) =
     attempt_count g + int (length (filter (\<lambda>p. helper p = 2) pws))"
  by (induction pws arbitrary: g) (simp_all add: attempt_count_check_password)

lemma notice_submissions:
  "lockout_notice \<in> set (ui (submissions helper pws g)) \<longleftrightarrow>
   lockout_notice \<in> set (ui g) \<or>
   (0 < length (filter (\<lambda>p. helper p = 2) pws) \<and>
    3 \<le> attempt_count g + int (length (filter (\<lambda>p. helper p = 2) pws)))"
proof (induction pws arbitrary: g)
  case Nil
  then show ?case by simp
next
  case (Cons p pws)
  show ?case
  proof (cases "helper p = 2")
    case True
    then show ?thesis
      by (cases "filter (\<lambda>p. helper p = 2) pws")
        (auto simp: Cons.IH notice_check_password attempt_count_check_password)
  next
    case False
    then show ?thesis
      by (simp add: Cons.IH notice_check_password attempt_count_check_password)
  qed
qed

text \<open>
  \<^verbatim>\<open>check_password\<close> hands every submission to the helper, also after the notice: the
  function reads \<open>attempt_count\<close> only to decide whether to show the box.
\<close>

lemma helper_calls_submissions:
  "helper_calls (submissions helper pws g) = helper_calls g @ pws"
  by (induction pws arbitrary: g) (simp_all add: check_password_def Let_def)

lemma submission_after_notice:
  "submissions demo_helper [''a'', ''b'', ''c'', ''correct horse''] gate_init =
     \<lparr>attempt_count = 3,
      ui = [lockout_notice, Msgbox ''Resetting device...'' [],
            StartTimer Factory_reset_password],
      helper_calls = [''a'', ''b'', ''c'', ''correct horse'']\<rparr>"
  by (simp add: check_password_def Let_def demo_helper_def gate_init_def EXIT_SUCCESS_def
      lockout_notice_def)

text \<open>
  C2, as the code has it. Within one process lifetime \<open>attempt_count\<close> counts the
  submissions for which the helper returned 2 (wrong password) and no others; it is never
  reset. The notice "Maximum password attempt reached." has been shown exactly when at
  least three such submissions have been made: it first appears at the third wrong
  password, not before.
\<close>

theorem lockout_notice_at_third_wrong_password:
  "attempt_count (submissions helper pws gate_init) =
     int (length (filter (\<lambda>p. helper p = 2) pws)) \<and>
   (lockout_notice \<in> set (ui (submissions helper pws gate_init)) \<longleftrightarrow>
      3 \<le> length (filter (\<lambda>p. helper p = 2) pws))"
  by (auto simp: attempt_count_submissions notice_submissions gate_init_def)

text \<open>
  The claim as written fails on four submissions of which the first meets a helper error
  (result 1), the next two are wrong passwords (result 2) and the fourth is correct: after
  three failed submissions no lockout has been reported, the counter holds 2, and the
  fourth submission is evaluated and schedules the reset.
\<close>

theorem fourth_submission_unlocks_counterexample:
  "demo_helper [] = 1 \<and> demo_helper ''a'' = 2 \<and> demo_helper ''b'' = 2 \<and>
   demo_helper ''correct horse'' = EXIT_SUCCESS \<and>
   submissions demo_helper [[], ''a'', ''b'', ''correct horse''] gate_init =
     \<lparr>attempt_count = 2,
      ui = [Msgbox ''Resetting device...'' [], StartTimer Factory_reset_password],
      helper_calls = [[], ''a'', ''b'', ''correct horse'']\<rparr>"
  by (simp add: check_password_def Let_def demo_helper_def gate_init_def EXIT_SUCCESS_def)

text \<open>Two wrong passwords show no notice; the third does.\<close>

theorem lockout_notice_at_third_wrong_password_witness:
  "lockout_notice \<notin> set (ui (submissions demo_helper [''a'', ''b''] gate_init)) \<and>
   lockout_notice \<in> set (ui (submissions demo_helper [''a'', ''b'', ''c''] gate_init)) \<and>
   attempt_count (submissions demo_helper [''a'', ''b'', ''c''] gate_init) = 3"
proof -
  have two: "length (filter (\<lambda>p. demo_helper p = 2) [''a'', ''b'']) = 2"
    by (simp add: demo_helper_def)
  have three: "length (filter (\<lambda>p. demo_helper p = 2) [''a'', ''b'', ''c'']) = 3"
    by (simp add: demo_helper_def)
  from lockout_notice_at_third_wrong_password [of demo_helper "[''a'', ''b'']"] two
  have 1: "lockout_notice \<notin> set (ui (submissions demo_helper [''a'', ''b''] gate_init))"
    by simp
  from lockout_notice_at_third_wrong_password [of demo_helper "[''a'', ''b'', ''c'']"] three
  have 2: "lockout_notice \<in> set (ui (submissions demo_helper [''a'', ''b'', ''c''] gate_init))"
    and 3: "attempt_count (submissions demo_helper [''a'', ''b'', ''c''] gate_init) = 3"
    by simp_all
  from 1 2 3 show ?thesis by blast
qed

end
